theory Spec2Isabelle
  imports Complex_Main "HOL-Library.AList"
begin

section \<open>JavaScript values of the dashboard\<close>

text \<open>
  The dashboard (\<^verbatim>\<open>frontend/src/Dashboards/StockDashboard.jsx\<close>) receives three parsed
  JSON payloads and reshapes them. The model below covers the part of JavaScript that
  this code exercises on such payloads.

  Numbers are IEEE 754 binary64 values: \<open>Fin q\<close> is the finite double of value \<open>q\<close>
  (\<open>Fin 0\<close> is \<open>+0\<close>), \<open>NZero\<close> is \<open>-0\<close>, and there are the two infinities and
  \<^verbatim>\<open>NaN\<close>. Every operation computes the exact result and rounds it to the nearest
  double, ties to the even significand, as the standard prescribes.
\<close>

datatype jsnum = Fin rat | NZero | PInf | NInf | NaN

text \<open>Powers of two, \<open>twopow n = 2\<^sup>n\<close>, computed by squaring.\<close>

fun twopow :: "nat \<Rightarrow> rat" where
  "twopow n =
     (if n = 0 then 1
      else let h = twopow (n div 2) in if even n then h * h else 2 * h * h)"

declare twopow.simps [simp del]

definition pow2 :: "int \<Rightarrow> rat" where
  "pow2 e = (if 0 \<le> e then twopow (nat e) else 1 / twopow (nat (- e)))"

text \<open>\<open>ilog2 n\<close> is \<open>\<lfloor>log\<^sub>2 n\<rfloor>\<close> for \<open>n \<ge> 1\<close>.\<close>

function ilog2 :: "int \<Rightarrow> int" where
  "ilog2 n = (if n < 2 then 0 else 1 + ilog2 (n div 2))"
  by pat_completeness auto
termination
  by (relation "measure nat") auto

declare ilog2.simps [simp del]

text \<open>
  The binary exponent of a positive rational: \<open>pow2 (expo r) \<le> r < pow2 (expo r + 1)\<close>.
  The difference of the logarithms of numerator and denominator is that exponent or
  one more.
\<close>

definition expo :: "rat \<Rightarrow> int" where
  "expo r =
     (case quotient_of r of (a, b) \<Rightarrow>
        let d = ilog2 a - ilog2 b
        in if pow2 d \<le> r then d else d - 1)"

text \<open>The nearest integer, the even one on a tie.\<close>

definition round_even :: "rat \<Rightarrow> int" where
  "round_even x =
     (let f = \<lfloor>x\<rfloor>; d = x - of_int f
      in if d < 1 / 2 then f
         else if 1 / 2 < d then f + 1
         else if even f then f else f + 1)"

text \<open>
  Rounding a positive rational to binary64: a significand of 53 bits at the exponent of
  the number, or at the least exponent \<open>-1022\<close> in the subnormal range; \<open>None\<close> when the
  rounded value reaches \<open>2\<^sup>1\<^sup>0\<^sup>2\<^sup>4\<close> (overflow).
\<close>

definition fl_mag :: "rat \<Rightarrow> rat option" where
  "fl_mag r =
     (let e = max (expo r) (- 1022);
          q = pow2 (e - 52);
          v = of_int (round_even (r / q)) * q
      in if pow2 1024 \<le> v then None else Some v)"

definition inf_signed :: "bool \<Rightarrow> jsnum" where
  "inf_signed neg = (if neg then NInf else PInf)"

definition zero_signed :: "bool \<Rightarrow> jsnum" where
  "zero_signed neg = (if neg then NZero else Fin 0)"

text \<open>
  The double nearest to a rational: what an operation returns for the exact result
  \<open>r\<close>, and what a decimal literal of value \<open>r\<close> denotes. A nonzero result that rounds to
  zero keeps its sign; overflow gives the infinity of that sign.
\<close>

definition fl :: "rat \<Rightarrow> jsnum" where
  "fl r =
     (if r = 0 then Fin 0
      else case fl_mag \<bar>r\<bar> of
             None \<Rightarrow> inf_signed (r < 0)
           | Some v \<Rightarrow> if v = 0 then zero_signed (r < 0)
                       else Fin (if r < 0 then - v else v))"

fun is_neg :: "jsnum \<Rightarrow> bool" where
  "is_neg (Fin q) = (q < 0)"
| "is_neg NZero = True"
| "is_neg NInf = True"
| "is_neg _ = False"

fun is_zero :: "jsnum \<Rightarrow> bool" where
  "is_zero (Fin q) = (q = 0)"
| "is_zero NZero = True"
| "is_zero _ = False"

fun is_inf :: "jsnum \<Rightarrow> bool" where
  "is_inf PInf = True"
| "is_inf NInf = True"
| "is_inf _ = False"

fun val :: "jsnum \<Rightarrow> rat" where
  "val (Fin q) = q"
| "val _ = 0"

text \<open>
  The operators \<^verbatim>\<open>*\<close>, \<^verbatim>\<open>-\<close> and \<^verbatim>\<open>/\<close> on numbers (\<^verbatim>\<open>Number::multiply\<close>,
  \<^verbatim>\<open>Number::subtract\<close>, \<^verbatim>\<open>Number::divide\<close>). The sign of a product or quotient is the
  exclusive or of the operands' signs, also when the result is a zero or an infinity; a
  difference that is exactly zero is \<open>+0\<close> unless it is \<open>(-0) - (+0)\<close>.
\<close>

definition num_mul :: "jsnum \<Rightarrow> jsnum \<Rightarrow> jsnum" where
  "num_mul x y =
     (if x = NaN \<or> y = NaN then NaN
      else if is_inf x \<or> is_inf y then
        (if is_zero x \<or> is_zero y then NaN else inf_signed (is_neg x \<noteq> is_neg y))
      else if is_zero x \<or> is_zero y then zero_signed (is_neg x \<noteq> is_neg y)
      else fl (val x * val y))"

definition num_sub :: "jsnum \<Rightarrow> jsnum \<Rightarrow> jsnum" where
  "num_sub x y =
     (if x = NaN \<or> y = NaN then NaN
      else if is_inf x then (if y = x then NaN else x)
      else if is_inf y then inf_signed (\<not> is_neg y)
      else if is_zero x \<and> is_zero y then zero_signed (is_neg x \<and> \<not> is_neg y)
      else if val x = val y then Fin 0
      else fl (val x - val y))"

definition num_div :: "jsnum \<Rightarrow> jsnum \<Rightarrow> jsnum" where
  "num_div x y =
     (if x = NaN \<or> y = NaN then NaN
      else if is_inf x then
        (if is_inf y then NaN else inf_signed (is_neg x \<noteq> is_neg y))
      else if is_inf y then zero_signed (is_neg x \<noteq> is_neg y)
      else if is_zero y then
        (if is_zero x then NaN else inf_signed (is_neg x \<noteq> is_neg y))
      else if is_zero x then zero_signed (is_neg x \<noteq> is_neg y)
      else fl (val x / val y))"

text \<open>
  \<^verbatim>\<open>Number.parseFloat(x.toFixed(2))\<close>. For a finite \<open>x\<close> below \<open>10\<^sup>2\<^sup>1\<close> in magnitude,
  \<^verbatim>\<open>toFixed(2)\<close> prints the integer \<open>n\<close> for which \<open>n / 100\<close> is closest to the magnitude
  of \<open>x\<close> (the larger one on a tie), with a minus sign when \<open>x < 0\<close>, and \<^verbatim>\<open>parseFloat\<close>
  reads the double nearest to that decimal; \<^verbatim>\<open>-0.00\<close> reads as \<open>-0\<close>, while \<open>-0\<close>
  itself, not being less than zero, prints as \<^verbatim>\<open>0.00\<close>. From \<open>10\<^sup>2\<^sup>1\<close> on, and for
  \<^verbatim>\<open>NaN\<close> and the infinities, \<^verbatim>\<open>toFixed\<close> prints the number as \<^verbatim>\<open>ToString\<close> does and
  \<^verbatim>\<open>parseFloat\<close> reads the same number back.
\<close>

fun parseFloat_toFixed2 :: "jsnum \<Rightarrow> jsnum" where
  "parseFloat_toFixed2 (Fin q) =
     (if 10 ^ 21 \<le> \<bar>q\<bar> then Fin q
      else let n = \<lfloor>\<bar>q\<bar> * 100 + 1 / 2\<rfloor>
           in if q < 0 then (if n = 0 then NZero else fl (- (of_int n / 100)))
              else fl (of_int n / 100))"
| "parseFloat_toFixed2 NZero = Fin 0"
| "parseFloat_toFixed2 x = x"

text \<open>
  Values: what \<^verbatim>\<open>JSON.parse\<close> produces, and \<^verbatim>\<open>undefined\<close>, which a read of a missing
  property yields. An object is the list of its own properties in insertion order; a
  read takes the first entry of a name. (JavaScript lists index-like names first; the
  statements below read objects by name, so the order plays no part in them.)
\<close>

datatype jsval =
    JUndefined
  | JNull
  | JBool bool
  | JNum jsnum
  | JStr string
  | JArr "jsval list"
  | JObj "(string \<times> jsval) list"

datatype error = TypeError | SyntaxError

text \<open>
  A value that \<^verbatim>\<open>JSON.parse\<close> can return: no \<^verbatim>\<open>undefined\<close> and no \<^verbatim>\<open>NaN\<close>; a
  number is the double of its literal, which may be \<open>-0\<close> or, for a literal out of
  range, an infinity.
\<close>

fun is_json :: "jsval \<Rightarrow> bool" where
  "is_json JUndefined = False"
| "is_json JNull = True"
| "is_json (JBool b) = True"
| "is_json (JNum n) = (case n of Fin q \<Rightarrow> fl q = Fin q | NaN \<Rightarrow> False | _ \<Rightarrow> True)"
| "is_json (JStr s) = True"
| "is_json (JArr xs) = (\<forall>x \<in> set xs. is_json x)"
| "is_json (JObj kvs) = (\<forall>kv \<in> set kvs. is_json (snd kv))"

definition bindE :: "'e + 'a \<Rightarrow> ('a \<Rightarrow> 'e + 'b) \<Rightarrow> 'e + 'b" where
  "bindE r f = (case r of Inl e \<Rightarrow> Inl e | Inr v \<Rightarrow> f v)"

text \<open>\<^verbatim>\<open>xs.map(f)\<close> on an array, where the callback may throw: the first throw ends the map.\<close>

fun mapE :: "('a \<Rightarrow> 'e + 'b) \<Rightarrow> 'a list \<Rightarrow> 'e + 'b list" where
  "mapE f [] = Inr []"
| "mapE f (x # xs) = bindE (f x) (\<lambda>y. bindE (mapE f xs) (\<lambda>ys. Inr (y # ys)))"

text \<open>Truthiness (\<^verbatim>\<open>!x\<close>, \<^verbatim>\<open>x || y\<close>) and nullishness (\<^verbatim>\<open>x ?? y\<close>).\<close>

fun truthy :: "jsval \<Rightarrow> bool" where
  "truthy JUndefined = False"
| "truthy JNull = False"
| "truthy (JBool b) = b"
| "truthy (JNum n) = (\<not> is_zero n \<and> n \<noteq> NaN)"
| "truthy (JStr s) = (s \<noteq> [])"
| "truthy (JArr xs) = True"
| "truthy (JObj kvs) = True"

fun nullish :: "jsval \<Rightarrow> bool" where
  "nullish JUndefined = True"
| "nullish JNull = True"
| "nullish _ = False"

definition orElse :: "jsval \<Rightarrow> jsval \<Rightarrow> jsval" where
  "orElse x y = (if truthy x then x else y)"

definition coalesce :: "jsval \<Rightarrow> jsval \<Rightarrow> jsval" where
  "coalesce x y = (if nullish x then y else x)"

text \<open>
  A property read \<^verbatim>\<open>v.k\<close>, for the names the dashboard reads (\<^verbatim>\<open>price\<close>, \<^verbatim>\<open>date\<close>,
  \<^verbatim>\<open>ds\<close>, \<^verbatim>\<open>yhat\<close>, \<^verbatim>\<open>symbol\<close>, \<^verbatim>\<open>error\<close>, \<^verbatim>\<open>regression\<close>,
  \<^verbatim>\<open>classification\<close> and the metric names): none of them is an array index or a property of a built-in prototype, so the
  read finds an own property of an object or nothing. Reading from \<^verbatim>\<open>null\<close> or
  \<^verbatim>\<open>undefined\<close> throws.
\<close>

fun Get :: "jsval \<Rightarrow> string \<Rightarrow> error + jsval" where
  "Get JUndefined k = Inl TypeError"
| "Get JNull k = Inl TypeError"
| "Get (JObj kvs) k = Inr (case map_of kvs k of None \<Rightarrow> JUndefined | Some v \<Rightarrow> v)"
| "Get v k = Inr JUndefined"

text \<open>
  Object spread \<^verbatim>\<open>{...v}\<close> copies the own enumerable properties: those of an object,
  the indexed elements of an array, the indexed characters of a string, and nothing
  for the other values. (Index names are listed in index order.)
\<close>

fun showNat :: "nat \<Rightarrow> string" where
  "showNat n =
     (if n < 10 then [char_of (48 + n)]
      else showNat (n div 10) @ [char_of (48 + n mod 10)])"

definition indexed :: "jsval list \<Rightarrow> (string \<times> jsval) list" where
  "indexed xs = zip (map showNat [0 ..< length xs]) xs"

fun spread :: "jsval \<Rightarrow> (string \<times> jsval) list" where
  "spread (JObj kvs) = kvs"
| "spread (JArr xs) = indexed xs"
| "spread (JStr s) = indexed (map (\<lambda>c. JStr [c]) s)"
| "spread v = []"

text \<open>
  The two conversions between strings and numbers that ECMAScript defines
  (\<^verbatim>\<open>StringToNumber\<close>, \<^verbatim>\<open>Number::toString\<close>) are parameters of the model.
\<close>

record builtins =
  StringToNumber :: "string \<Rightarrow> jsnum"
  NumberToString :: "jsnum \<Rightarrow> string"

text \<open>
  \<^verbatim>\<open>ToString\<close> and \<^verbatim>\<open>Array.prototype.join\<close>. An object is converted by the first
  callable of its \<^verbatim>\<open>toString\<close> and \<^verbatim>\<open>valueOf\<close> that returns a primitive. A parsed
  object inherits both from \<^verbatim>\<open>Object.prototype\<close>, whose \<^verbatim>\<open>valueOf\<close> returns the object
  itself; an own property of either name holds parsed data, which is not callable. So
  an object with an own \<^verbatim>\<open>toString\<close> property cannot be converted and the conversion
  throws, and every other object prints as \<^verbatim>\<open>[object Object]\<close>. An array prints as the
  join of its elements.
\<close>

fun ToString :: "builtins \<Rightarrow> jsval \<Rightarrow> error + string"
  and join :: "builtins \<Rightarrow> jsval list \<Rightarrow> error + string" where
  "ToString B JUndefined = Inr ''undefined''"
| "ToString B JNull = Inr ''null''"
| "ToString B (JBool b) = Inr (if b then ''true'' else ''false'')"
| "ToString B (JNum n) = Inr (NumberToString B n)"
| "ToString B (JStr s) = Inr s"
| "ToString B (JArr xs) = join B xs"
| "ToString B (JObj kvs) =
     (if ''toString'' \<in> fst ` set kvs then Inl TypeError else Inr ''[object Object]'')"
| "join B [] = Inr []"
| "join B (x # xs) =
     bindE (if nullish x then Inr [] else ToString B x) (\<lambda>s.
       if xs = [] then Inr s
       else bindE (join B xs) (\<lambda>t. Inr (s @ '','' @ t)))"

text \<open>\<^verbatim>\<open>ToNumber\<close>, which \<^verbatim>\<open>Number(v)\<close> and the arithmetic operators apply to an operand.\<close>

fun ToNumber :: "builtins \<Rightarrow> jsval \<Rightarrow> error + jsnum" where
  "ToNumber B JUndefined = Inr NaN"
| "ToNumber B JNull = Inr (Fin 0)"
| "ToNumber B (JBool b) = Inr (Fin (if b then 1 else 0))"
| "ToNumber B (JNum n) = Inr n"
| "ToNumber B (JStr s) = Inr (StringToNumber B s)"
| "ToNumber B v = bindE (ToString B v) (\<lambda>s. Inr (StringToNumber B s))"

section \<open>The transformation functions\<close>

definition USD_TO_INR :: jsnum where
  "USD_TO_INR = Fin 83"

definition zero :: jsval where
  "zero = JNum (Fin 0)"

text \<open>\<^verbatim>\<open>convertToInr(value) = Number.parseFloat(((value ?? 0) * USD_TO_INR).toFixed(2))\<close>\<close>

definition convertToInr :: "builtins \<Rightarrow> jsval \<Rightarrow> error + jsnum" where
  "convertToInr B v =
     bindE (ToNumber B (coalesce v zero)) (\<lambda>n.
       Inr (parseFloat_toFixed2 (num_mul n USD_TO_INR)))"

text \<open>
  The call \<^verbatim>\<open>v.map(f)\<close>. Only an array has a callable \<^verbatim>\<open>map\<close>: on \<^verbatim>\<open>null\<close> and
  \<^verbatim>\<open>undefined\<close> the read of \<^verbatim>\<open>map\<close> throws, on the other values it finds nothing or
  (in an object with an own \<^verbatim>\<open>map\<close> property) parsed data, and calling that throws.
\<close>

definition callMap :: "jsval \<Rightarrow> (jsval \<Rightarrow> error + jsval) \<Rightarrow> error + jsval list" where
  "callMap v f = (case v of JArr xs \<Rightarrow> mapE f xs | _ \<Rightarrow> Inl TypeError)"

text \<open>
  \<^verbatim>\<open>(historicalData || []).map(d => ({ ...d, price: convertToInr(d.price) }))\<close>
\<close>

definition convertPoint :: "builtins \<Rightarrow> jsval \<Rightarrow> error + jsval" where
  "convertPoint B d =
     bindE (Get d ''price'') (\<lambda>p.
     bindE (convertToInr B p) (\<lambda>x.
       Inr (JObj (AList.update ''price'' (JNum x) (spread d)))))"

definition convertedHistorical :: "builtins \<Rightarrow> jsval \<Rightarrow> error + jsval list" where
  "convertedHistorical B historicalData =
     callMap (orElse historicalData (JArr [])) (convertPoint B)"

text \<open>
  The two projections of the merged series,
  \<^verbatim>\<open>d => ({ date: d.date, price: d.price })\<close> and
  \<^verbatim>\<open>d => ({ date: d.ds, prediction: convertToInr(d.yhat) })\<close>, and the series itself:
  \<^verbatim>\<open>[...convertedHistorical.map(..), ...(predictionData || []).map(..)]\<close>.
\<close>

definition historicalProjection :: "jsval \<Rightarrow> error + jsval" where
  "historicalProjection d =
     bindE (Get d ''date'') (\<lambda>dt.
     bindE (Get d ''price'') (\<lambda>p.
       Inr (JObj [(''date'', dt), (''price'', p)])))"

definition forecastProjection :: "builtins \<Rightarrow> jsval \<Rightarrow> error + jsval" where
  "forecastProjection B d =
     bindE (Get d ''ds'') (\<lambda>ds.
     bindE (Get d ''yhat'') (\<lambda>y.
     bindE (convertToInr B y) (\<lambda>x.
       Inr (JObj [(''date'', ds), (''prediction'', JNum x)]))))"

definition merged :: "builtins \<Rightarrow> jsval list \<Rightarrow> jsval \<Rightarrow> error + jsval list" where
  "merged B converted predictionData =
     bindE (mapE historicalProjection converted) (\<lambda>hs.
     bindE (callMap (orElse predictionData (JArr [])) (forecastProjection B)) (\<lambda>fs.
       Inr (hs @ fs)))"

text \<open>
  \<^verbatim>\<open>transformMetrics\<close>. The two helpers are the field initialisers
  \<^verbatim>\<open>convertToInr(o.k ?? 0)\<close> and \<^verbatim>\<open>Number(o.k ?? 0)\<close>.
\<close>

definition convertedField :: "builtins \<Rightarrow> jsval \<Rightarrow> string \<Rightarrow> error + jsval" where
  "convertedField B obj k =
     bindE (Get obj k) (\<lambda>v.
     bindE (convertToInr B (coalesce v zero)) (\<lambda>n. Inr (JNum n)))"

definition numberField :: "builtins \<Rightarrow> jsval \<Rightarrow> string \<Rightarrow> error + jsval" where
  "numberField B obj k =
     bindE (Get obj k) (\<lambda>v.
     bindE (ToNumber B (coalesce v zero)) (\<lambda>n. Inr (JNum n)))"

definition emptyMatrix :: jsval where
  "emptyMatrix = JObj [(''tn'', zero), (''fp'', zero), (''fn'', zero), (''tp'', zero)]"

definition regressionPart :: "builtins \<Rightarrow> jsval \<Rightarrow> error + jsval" where
  "regressionPart B regression =
     bindE (convertedField B regression ''mae'') (\<lambda>mae.
     bindE (convertedField B regression ''rmse'') (\<lambda>rmse.
     bindE (numberField B regression ''mape'') (\<lambda>mape.
     bindE (numberField B regression ''r2'') (\<lambda>r2.
       Inr (JObj (AList.update ''r2'' r2 (AList.update ''mape'' mape
              (AList.update ''rmse'' rmse (AList.update ''mae'' mae
                (spread regression))))))))))"

definition classificationPart :: "builtins \<Rightarrow> jsval \<Rightarrow> error + jsval" where
  "classificationPart B classification =
     bindE (numberField B classification ''accuracy'') (\<lambda>accuracy.
     bindE (numberField B classification ''precision'') (\<lambda>precision.
     bindE (numberField B classification ''recall'') (\<lambda>recall.
     bindE (numberField B classification ''f1'') (\<lambda>f1.
     bindE (Get classification ''confusion_matrix'') (\<lambda>cm.
       Inr (JObj (AList.update ''confusion_matrix'' (orElse cm emptyMatrix)
              (AList.update ''f1'' f1 (AList.update ''recall'' recall
                (AList.update ''precision'' precision (AList.update ''accuracy'' accuracy
                  (spread classification))))))))))))"

definition transformMetrics :: "builtins \<Rightarrow> jsval \<Rightarrow> error + jsval" where
  "transformMetrics B metricsData =
     (if \<not> truthy metricsData then Inr JNull
      else bindE (Get metricsData ''error'') (\<lambda>err.
        if truthy err then Inr JNull
        else
          bindE (Get metricsData ''regression'') (\<lambda>r.
          bindE (Get metricsData ''classification'') (\<lambda>c.
          bindE (regressionPart B (orElse r (JObj []))) (\<lambda>reg.
          bindE (classificationPart B (orElse c (JObj []))) (\<lambda>cls.
            Inr (JObj (AList.update ''classification'' cls
                   (AList.update ''regression'' reg (spread metricsData))))))))))"

section \<open>The selection handler and the view state\<close>

record view =
  selectedStock :: jsval
  mergedData :: "jsval list"
  stockData :: "jsval list"
  loading :: bool
  companies :: jsval
  metrics :: jsval

text \<open>
  What one \<^verbatim>\<open>fetch\<close> comes to: it rejects (the request could not be made or answered),
  or it resolves with a response that has a status (\<open>ok\<close> for 200 to 299) and a body,
  which \<^verbatim>\<open>res.json()\<close> parses (\<open>None\<close> for a body that is not JSON). The handler never
  reads the status.
\<close>

datatype response = Response (ok: bool) (parsed: "jsval option")

datatype fetched = Rejected | Resolved response

text \<open>\<^verbatim>\<open>fetch(url).then(res => res.json())\<close>\<close>

fun fetchJson :: "fetched \<Rightarrow> error + jsval" where
  "fetchJson Rejected = Inl TypeError"
| "fetchJson (Resolved res) =
     (case parsed res of None \<Rightarrow> Inl SyntaxError | Some v \<Rightarrow> Inr v)"

text \<open>\<^verbatim>\<open>Promise.all\<close> of the three: rejected as soon as one is, else the three values.\<close>

definition promiseAll :: "error + jsval \<Rightarrow> error + jsval \<Rightarrow> error + jsval
    \<Rightarrow> error + jsval \<times> jsval \<times> jsval" where
  "promiseAll a b c =
     bindE a (\<lambda>x. bindE b (\<lambda>y. bindE c (\<lambda>z. Inr (x, y, z))))"

text \<open>
  The \<^verbatim>\<open>then\<close> callback sets the state step by step; a throw leaves the steps before it
  in place and passes the error on to the \<^verbatim>\<open>catch\<close> callback.
\<close>

definition onFulfilled :: "builtins \<Rightarrow> jsval \<times> jsval \<times> jsval \<Rightarrow> view \<Rightarrow> error option \<times> view" where
  "onFulfilled B payloads s =
     (case payloads of (historicalData, predictionData, metricsData) \<Rightarrow>
        (case convertedHistorical B historicalData of
           Inl e \<Rightarrow> (Some e, s)
         | Inr conv \<Rightarrow>
            (case merged B conv predictionData of
               Inl e \<Rightarrow> (Some e, s\<lparr>stockData := conv\<rparr>)
             | Inr m \<Rightarrow>
                (case transformMetrics B metricsData of
                   Inl e \<Rightarrow> (Some e, s\<lparr>stockData := conv, mergedData := m\<rparr>)
                 | Inr t \<Rightarrow>
                     (None, s\<lparr>stockData := conv, mergedData := m,
                               metrics := t, loading := False\<rparr>)))))"

definition onRejected :: "view \<Rightarrow> view" where
  "onRejected s = s\<lparr>stockData := [], mergedData := [], metrics := JNull, loading := False\<rparr>"

text \<open>
  \<^verbatim>\<open>handleStockSelect(company)\<close>, given what the three requests come to: the view once the
  promise chain has settled. The request addresses are template literals over
  \<^verbatim>\<open>company.symbol\<close>; if that cannot be read or printed the handler throws before any
  request is made.
\<close>

definition handleStockSelect ::
    "builtins \<Rightarrow> jsval \<Rightarrow> fetched \<Rightarrow> fetched \<Rightarrow> fetched \<Rightarrow> view \<Rightarrow> view" where
  "handleStockSelect B company stock predict metric s =
     (let s0 = s\<lparr>loading := True, selectedStock := company\<rparr> in
      case bindE (Get company ''symbol'') (ToString B) of
        Inl e \<Rightarrow> s0
      | Inr symbol \<Rightarrow>
         (case promiseAll (fetchJson stock) (fetchJson predict) (fetchJson metric) of
            Inl e \<Rightarrow> onRejected s0
          | Inr payloads \<Rightarrow>
             (case onFulfilled B payloads s0 of
                (Some e, s1) \<Rightarrow> onRejected s1
              | (None, s1) \<Rightarrow> s1)))"

text \<open>\<^verbatim>\<open>getPriceChange\<close>, over the \<^verbatim>\<open>stockData\<close> of the view.\<close>

record priceChange =
  change :: jsnum
  percentage :: jsnum

definition getPriceChange :: "builtins \<Rightarrow> jsval list \<Rightarrow> error + priceChange" where
  "getPriceChange B sd =
     (if length sd < 2 then Inr \<lparr>change = Fin 0, percentage = Fin 0\<rparr>
      else
        bindE (Get (sd ! (length sd - 1)) ''price'') (\<lambda>current.
        bindE (Get (sd ! (length sd - 2)) ''price'') (\<lambda>previous.
        bindE (ToNumber B current) (\<lambda>c.
        bindE (ToNumber B previous) (\<lambda>p.
          Inr \<lparr>change = num_sub c p,
               percentage = num_mul (num_div (num_sub c p) p) (Fin 100)\<rparr>)))))"

section \<open>Notions used in the statements\<close>

text \<open>
  An instance of the two built-in conversions for ground examples. It converts every
  string to \<^verbatim>\<open>NaN\<close>; no example below converts a string or prints a number, so none
  depends on it.
\<close>

definition exampleBuiltins :: builtins where
  "exampleBuiltins = \<lparr>StringToNumber = (\<lambda>s. NaN), NumberToString = (\<lambda>n. ''NaN'')\<rparr>"

text \<open>
  The number that the decimal literal of value \<open>m / 10\<^sup>k\<close> denotes, in JSON and in
  JavaScript: \<open>decimal 95 3\<close> is \<^verbatim>\<open>0.095\<close>.
\<close>

definition decimal :: "int \<Rightarrow> nat \<Rightarrow> jsnum" where
  "decimal m k = fl (of_int m / 10 ^ k)"

text \<open>The value of a property read that does not throw.\<close>

definition field :: "jsval \<Rightarrow> string \<Rightarrow> jsval" where
  "field v k = (case Get v k of Inl e \<Rightarrow> JUndefined | Inr x \<Rightarrow> x)"

text \<open>
  The values that \<^verbatim>\<open>ToNumber\<close> and \<^verbatim>\<open>ToString\<close> convert without throwing: all but an
  object with an own \<^verbatim>\<open>toString\<close> property and an array that holds such an object,
  directly or inside nested arrays.
\<close>

fun coercible :: "jsval \<Rightarrow> bool" where
  "coercible (JObj kvs) = (''toString'' \<notin> fst ` set kvs)"
| "coercible (JArr xs) = (\<forall>x \<in> set xs. coercible x)"
| "coercible v = True"

text \<open>
  The eight numeric leaves of a metrics payload convert: the fields that
  \<^verbatim>\<open>transformMetrics\<close> passes to \<^verbatim>\<open>convertToInr\<close> and \<^verbatim>\<open>Number\<close>.
\<close>

definition leavesConvert :: "jsval \<Rightarrow> bool" where
  "leavesConvert m =
     (let R = orElse (field m ''regression'') (JObj []);
          C = orElse (field m ''classification'') (JObj [])
      in coercible (field R ''mae'') \<and> coercible (field R ''rmse'')
       \<and> coercible (field R ''mape'') \<and> coercible (field R ''r2'')
       \<and> coercible (field C ''accuracy'') \<and> coercible (field C ''precision'')
       \<and> coercible (field C ''recall'') \<and> coercible (field C ''f1''))"

text \<open>
  The payloads on which the array transformations return: a falsy payload (replaced by
  the empty array) or an array of points, none \<^verbatim>\<open>null\<close> or \<^verbatim>\<open>undefined\<close>, whose value
  field \<open>k\<close> converts. And the metrics payloads on which \<^verbatim>\<open>transformMetrics\<close> returns.
\<close>

definition payloadOk :: "string \<Rightarrow> jsval \<Rightarrow> bool" where
  "payloadOk k v =
     (case v of
        JArr xs \<Rightarrow> \<forall>d \<in> set xs. \<not> nullish d \<and> coercible (field d k)
      | _ \<Rightarrow> \<not> truthy v)"

definition metricsOk :: "jsval \<Rightarrow> bool" where
  "metricsOk m = (if truthy m \<and> \<not> truthy (field m ''error'') then leavesConvert m else True)"

text \<open>The view before the first selection, as the component initialises it.\<close>

definition emptyView :: view where
  "emptyView = \<lparr>selectedStock = JNull, mergedData = [], stockData = [], loading = False,
                companies = JArr [], metrics = JNull\<rparr>"

section \<open>Auxiliary facts\<close>

lemma twopow_eq: "twopow n = 2 ^ n"
proof (induction n rule: less_induct)
  case (less n)
  show ?case
  proof (cases "n = 0")
    case True
    then show ?thesis by (subst twopow.simps) simp
  next
    case False
    then have h: "twopow (n div 2) = 2 ^ (n div 2)"
      using less by simp
    have d: "(2::rat) ^ (n div 2) * 2 ^ (n div 2) = 2 ^ (2 * (n div 2))"
      by (simp add: power_add mult_2)
    show ?thesis
    proof (cases "even n")
      case True
      then have "2 * (n div 2) = n" by simp
      with False True h d show ?thesis
        by (subst twopow.simps) (simp add: Let_def)
    next
      case odd: False
      then have "Suc (2 * (n div 2)) = n" by simp
      then have "(2::rat) * 2 ^ (2 * (n div 2)) = 2 ^ n"
        by (metis power_Suc)
      with False odd h d show ?thesis
        by (subst twopow.simps) (simp add: Let_def mult.assoc)
    qed
  qed
qed

text \<open>
  The exponent that \<open>expo\<close> finds is the binary exponent of the number, and the
  rounded magnitude is a multiple of the unit in the last place that lies within half
  a unit of the exact value.
\<close>

lemma pow2_powi: "pow2 e = 2 powi e"
  by (simp add: pow2_def twopow_eq power_int_def field_simps)

lemma ilog2_nonneg: "0 \<le> ilog2 n"
proof (induction n rule: ilog2.induct)
  case (1 n)
  then show ?case by (subst ilog2.simps) simp
qed

lemma ilog2_bounds:
  "1 \<le> n \<Longrightarrow> 2 ^ nat (ilog2 n) \<le> n \<and> n < 2 * 2 ^ nat (ilog2 n)"
proof (induction n rule: ilog2.induct)
  case (1 n)
  show ?case
  proof (cases "n < 2")
    case True
    then have "ilog2 n = 0" by (subst ilog2.simps) simp
    with True "1.prems" show ?thesis by simp
  next
    case False
    then have IH: "2 ^ nat (ilog2 (n div 2)) \<le> n div 2 \<and> n div 2 < 2 * 2 ^ nat (ilog2 (n div 2))"
      using "1.IH" by simp
    have "ilog2 n = 1 + ilog2 (n div 2)"
      using False by (subst ilog2.simps) simp
    then have e: "nat (ilog2 n) = Suc (nat (ilog2 (n div 2)))"
      using ilog2_nonneg [of "n div 2"] by simp
    from IH show ?thesis
      unfolding e by auto
  qed
qed


lemma expo_bounds:
  assumes r: "0 < r"
  shows "pow2 (expo r) \<le> r \<and> r < pow2 (expo r + 1)"
proof -
  obtain a b where q: "quotient_of r = (a, b)"
    by (cases "quotient_of r")
  then have b: "0 < b" and rab: "r = of_int a / of_int b"
    using quotient_of_denom_pos [of r a b] quotient_of_div [of r a b] by simp_all
  with r have a: "0 < a"
    by (simp add: zero_less_divide_iff)
  define A :: rat where "A = 2 ^ nat (ilog2 a)"
  define B :: rat where "B = 2 ^ nat (ilog2 b)"
  have "(2::int) ^ nat (ilog2 a) \<le> a \<and> a < 2 * 2 ^ nat (ilog2 a)"
    using a ilog2_bounds [of a] by simp
  then have "of_int ((2::int) ^ nat (ilog2 a)) \<le> (of_int a :: rat)
      \<and> of_int a < (of_int (2 * 2 ^ nat (ilog2 a)) :: rat)"
    by (simp only: of_int_le_iff of_int_less_iff)
  then have Aa: "A \<le> of_int a" "of_int a < 2 * A"
    by (simp_all add: A_def)
  have "(2::int) ^ nat (ilog2 b) \<le> b \<and> b < 2 * 2 ^ nat (ilog2 b)"
    using b ilog2_bounds [of b] by simp
  then have "of_int ((2::int) ^ nat (ilog2 b)) \<le> (of_int b :: rat)
      \<and> of_int b < (of_int (2 * 2 ^ nat (ilog2 b)) :: rat)"
    by (simp only: of_int_le_iff of_int_less_iff)
  then have Bb: "B \<le> of_int b" "of_int b < 2 * B"
    by (simp_all add: B_def)
  have Apos: "0 < A" and Bpos: "0 < B"
    by (simp_all add: A_def B_def)
  have bpos: "0 < (of_int b :: rat)" and apos: "0 < (of_int a :: rat)"
    using a b by simp_all
  have pA: "(2::rat) powi ilog2 a = A" and pB: "(2::rat) powi ilog2 b = B"
    using ilog2_nonneg [of a] ilog2_nonneg [of b]
    by (simp_all add: power_int_def A_def B_def)
  have "(2::rat) powi (ilog2 a - ilog2 b) = 2 powi ilog2 a / 2 powi ilog2 b"
    by (simp add: power_int_diff)
  then have d: "pow2 (ilog2 a - ilog2 b) = A / B"
    by (simp add: pow2_powi pA pB)
  have d1: "pow2 (ilog2 a - ilog2 b + 1) = 2 * A / B"
    using d by (simp add: pow2_powi power_int_add)
  have d0: "pow2 (ilog2 a - ilog2 b - 1) = A / (2 * B)"
    using d by (simp add: pow2_powi power_int_diff)
  have up: "r < 2 * A / B"
  proof -
    have "of_int a * B \<le> of_int a * of_int b"
      using Bb(1) apos by (simp add: mult_left_mono)
    also have "\<dots> < 2 * A * of_int b"
      using Aa(2) bpos by (simp add: mult_strict_right_mono)
    finally have "of_int a * B < 2 * A * of_int b" .
    then show ?thesis
      using bpos Bpos by (simp add: rab field_simps)
  qed
  have low: "A / (2 * B) \<le> r"
  proof -
    have "A * of_int b \<le> of_int a * of_int b"
      using Aa(1) bpos by (simp add: mult_right_mono)
    also have "\<dots> \<le> of_int a * (2 * B)"
      using Bb(2) apos by (simp add: mult_left_mono)
    finally have "A * of_int b \<le> of_int a * (2 * B)" .
    then show ?thesis
      using bpos Bpos by (simp add: rab field_simps)
  qed
  show ?thesis
  proof (cases "pow2 (ilog2 a - ilog2 b) \<le> r")
    case True
    then have "expo r = ilog2 a - ilog2 b"
      by (simp add: expo_def q Let_def)
    with True up d1 show ?thesis by simp
  next
    case False
    then have "expo r = ilog2 a - ilog2 b - 1"
      by (simp add: expo_def q Let_def)
    with False low d0 show ?thesis by simp
  qed
qed


lemma pow2_pos: "0 < pow2 e"
  by (simp add: pow2_powi)

lemma round_even_nearest: "\<bar>of_int (round_even x) - x\<bar> \<le> 1 / 2"
proof -
  have f: "of_int \<lfloor>x\<rfloor> \<le> x" "x < of_int \<lfloor>x\<rfloor> + 1"
    by linarith+
  consider "x - of_int \<lfloor>x\<rfloor> < 1 / 2" | "1 / 2 < x - of_int \<lfloor>x\<rfloor>"
    | "x - of_int \<lfloor>x\<rfloor> = 1 / 2"
    by linarith
  then show ?thesis
  proof cases
    case 1
    then have "round_even x = \<lfloor>x\<rfloor>"
      by (simp add: round_even_def Let_def)
    with 1 f show ?thesis by simp
  next
    case 2
    then have "round_even x = \<lfloor>x\<rfloor> + 1"
      by (simp add: round_even_def Let_def)
    with 2 f show ?thesis by simp
  next
    case 3
    then have "round_even x = \<lfloor>x\<rfloor> \<or> round_even x = \<lfloor>x\<rfloor> + 1"
      by (simp add: round_even_def Let_def)
    with 3 show ?thesis by auto
  qed
qed

lemma fl_mag_nearest:
  assumes "fl_mag r = Some v"
  shows "\<exists>n. v = of_int n * pow2 (max (expo r) (- 1022) - 52)
           \<and> \<bar>v - r\<bar> \<le> pow2 (max (expo r) (- 1022) - 52) / 2"
proof -
  define q where "q = pow2 (max (expo r) (- 1022) - 52)"
  have q: "0 < q" by (simp add: q_def pow2_pos)
  from assms have v: "v = of_int (round_even (r / q)) * q"
    by (simp add: fl_mag_def Let_def q_def split: if_splits)
  have "\<bar>of_int (round_even (r / q)) - r / q\<bar> * q \<le> 1 / 2 * q"
    using round_even_nearest [of "r / q"] q by (simp add: mult_right_mono)
  moreover have "\<bar>of_int (round_even (r / q)) - r / q\<bar> * q = \<bar>v - r\<bar>"
  proof -
    have "v - r = (of_int (round_even (r / q)) - r / q) * q"
      using q by (simp add: v field_simps)
    then show ?thesis
      using q by (simp add: abs_mult)
  qed
  ultimately have "\<bar>v - r\<bar> \<le> q / 2" by simp
  with v show ?thesis
    unfolding q_def by blast
qed

lemma floor_rat_numeral [simp]:
  "\<lfloor>(numeral a :: rat) / numeral b\<rfloor> = numeral a div numeral b"
  using floor_divide_of_int_eq [of "numeral a" "numeral b", where ?'a = rat] by simp

lemma floor_rat_half [simp]: "\<lfloor>(1::rat) / 2\<rfloor> = 0"
  by (rule floor_unique) simp_all

lemma conv_0: "parseFloat_toFixed2 (num_mul (Fin 0) (Fin 83)) = Fin 0"
  by (simp add: num_mul_def zero_signed_def fl_def)

lemma conv_1: "parseFloat_toFixed2 (num_mul (Fin 1) (Fin 83)) = Fin 83"
  by code_simp

lemma conv_2: "parseFloat_toFixed2 (num_mul (Fin 2) (Fin 83)) = Fin 166"
  by code_simp

lemma conv_100: "parseFloat_toFixed2 (num_mul (Fin 100) (Fin 83)) = Fin 8300"
  by code_simp

lemmas conv_evals = conv_0 conv_1 conv_2 conv_100

lemma fl_1: "fl 1 = Fin 1"
  by code_simp

lemma fl_5: "fl 5 = Fin 5"
  by code_simp

text \<open>Values of the conversion and of the price change where the rounding shows.\<close>

lemma conv_0_095: "parseFloat_toFixed2 (num_mul (decimal 95 3) (Fin 83)) = decimal 788 2"
  by code_simp

lemma conv_1_2045: "parseFloat_toFixed2 (num_mul (decimal 12045 4) (Fin 83)) = decimal 9997 2"
  by code_simp

lemma conv_10_235: "parseFloat_toFixed2 (num_mul (decimal 10235 3) (Fin 83)) = decimal 84950 2"
  by code_simp

lemma conv_tie:
  "parseFloat_toFixed2 (num_mul (decimal 4518072289156626 18) (Fin 83)) = decimal 38 2"
  by code_simp

lemma conv_minus_tiny: "parseFloat_toFixed2 (num_mul (decimal (- 1) 5) (Fin 83)) = NZero"
  by code_simp

lemma decimal_coalesce [simp]: "coalesce (JNum (decimal m k)) zero = JNum (decimal m k)"
  by (simp add: coalesce_def)

lemma sub_91_3: "num_sub (decimal 9130 2) (Fin 83) = decimal 8299999999999997 15"
  by code_simp

lemma pct_91_3:
  "num_mul (num_div (decimal 8299999999999997 15) (Fin 83)) (Fin 100)
     = decimal 9999999999999996 15"
  by code_simp

lemma sub_neg_zero: "num_sub (Fin 83) NZero = Fin 83"
  by code_simp

lemma pct_neg_zero: "num_mul (num_div (Fin 83) NZero) (Fin 100) = NInf"
  by code_simp

lemma sub_110: "num_sub (Fin 110) (Fin 100) = Fin 10"
  by code_simp

lemma pct_110: "num_mul (num_div (Fin 10) (Fin 100)) (Fin 100) = Fin 10"
  by code_simp

lemma zero_previous:
  assumes "is_zero p"
  shows "num_mul (num_div x p) (Fin 100) \<in> {NaN, PInf, NInf}"
proof -
  have "num_div x p \<in> {NaN, PInf, NInf}"
    using assms by (cases x; cases p) (auto simp: num_div_def inf_signed_def)
  then show ?thesis
    by (auto simp: num_mul_def inf_signed_def)
qed

lemma bindE_Inr [simp]: "bindE (Inr v) f = f v"
  by (simp add: bindE_def)

lemma bindE_Inl [simp]: "bindE (Inl e) f = Inl e"
  by (simp add: bindE_def)

lemma bindE_eq_Inr: "(bindE r f = Inr y) = (\<exists>v. r = Inr v \<and> f v = Inr y)"
  by (cases r) simp_all

lemma bindE_returns: "(\<exists>y. bindE r f = Inr y) = (\<exists>v. r = Inr v \<and> (\<exists>y. f v = Inr y))"
  by (cases r) simp_all

lemma mapE_eq_Inr: "(mapE f xs = Inr ys) = list_all2 (\<lambda>x y. f x = Inr y) xs ys"
proof (induction xs arbitrary: ys)
  case Nil
  show ?case by auto
next
  case (Cons x xs)
  show ?case
    by (cases ys) (auto simp: bindE_eq_Inr Cons.IH)
qed

lemma mapE_returns: "(\<exists>ys. mapE f xs = Inr ys) = (\<forall>x \<in> set xs. \<exists>y. f x = Inr y)"
  by (induction xs) (auto simp: bindE_returns)

lemma list_all2_returns:
  "(\<exists>ys. list_all2 (\<lambda>x y. f x = Inr y) xs ys) = (\<forall>x \<in> set xs. \<exists>y. f x = Inr y)"
  using mapE_returns [of f xs] by (simp add: mapE_eq_Inr)

lemma nullish_coercible: "nullish v \<Longrightarrow> coercible v"
  by (cases v) simp_all

lemma ToString_join_returns:
  "(\<exists>s. ToString B v = Inr s) = coercible v"
  "(\<exists>s. join B xs = Inr s) = (\<forall>x \<in> set xs. coercible x)"
proof (induction B v and B xs rule: ToString_join.induct)
  case (9 B x xs)
  then show ?case
    by (cases "nullish x") (auto simp: bindE_returns nullish_coercible)
qed simp_all

lemma ToNumber_returns: "(\<exists>n. ToNumber B v = Inr n) = coercible v"
proof (cases v)
  case (JArr xs)
  then show ?thesis
    using ToString_join_returns(2) [of B xs] by (simp add: bindE_returns)
qed (simp_all add: bindE_returns)

lemma coercible_coalesce: "coercible (coalesce v zero) = coercible v"
  by (cases v) (simp_all add: coalesce_def zero_def)

lemma coalesce_number:
  "coercible v = (\<exists>n. ToNumber B (coalesce v zero) = Inr n)"
  by (simp add: ToNumber_returns coercible_coalesce)

lemma coalesce_idem [simp]: "coalesce (coalesce v zero) zero = coalesce v zero"
  by (cases v) (simp_all add: coalesce_def zero_def)

lemma convertToInr_returns: "(\<exists>n. convertToInr B v = Inr n) = coercible v"
  by (simp add: convertToInr_def bindE_returns ToNumber_returns coercible_coalesce)

lemma convertToInr_eq_Inr:
  "(convertToInr B v = Inr x) =
     (\<exists>n. ToNumber B (coalesce v zero) = Inr n \<and> x = parseFloat_toFixed2 (num_mul n (Fin 83)))"
  by (auto simp: convertToInr_def bindE_eq_Inr USD_TO_INR_def)

lemma Get_returns: "(\<exists>x. Get v k = Inr x) = (\<not> nullish v)"
  by (cases v) simp_all

lemma Get_field: "\<not> nullish v \<Longrightarrow> Get v k = Inr (field v k)"
  by (cases v) (simp_all add: field_def)

lemma Get_nullish: "nullish v \<Longrightarrow> Get v k = Inl TypeError"
  by (cases v) simp_all

lemma truthy_not_nullish: "truthy v \<Longrightarrow> \<not> nullish v"
  by (cases v) simp_all

lemma truthy_orElse_obj [simp]: "truthy (orElse v (JObj kvs))"
  by (simp add: orElse_def)

lemma map_of_update:
  "map_of (AList.update k v al) k' = (if k' = k then Some v else map_of al k')"
  by (simp add: update_conv')

lemma callMap_eq_Inr:
  "(callMap v f = Inr ys) = (\<exists>xs. v = JArr xs \<and> list_all2 (\<lambda>x y. f x = Inr y) xs ys)"
  by (cases v) (simp_all add: callMap_def mapE_eq_Inr)

lemma orElse_eq_JArr:
  "(orElse p (JArr []) = JArr xs) = (p = JArr xs \<or> (\<not> truthy p \<and> xs = []))"
  by (cases p) (auto simp: orElse_def)

lemma callMap_returns:
  "(\<exists>ys. callMap (orElse v (JArr [])) f = Inr ys) =
     (case v of JArr xs \<Rightarrow> \<forall>d \<in> set xs. \<exists>y. f d = Inr y | _ \<Rightarrow> \<not> truthy v)"
proof -
  have "(\<exists>ys. callMap (orElse v (JArr [])) f = Inr ys) =
     (\<exists>xs. (v = JArr xs \<or> (\<not> truthy v \<and> xs = [])) \<and> (\<forall>d \<in> set xs. \<exists>y. f d = Inr y))"
    unfolding callMap_eq_Inr orElse_eq_JArr list_all2_returns [symmetric] by blast
  then show ?thesis
    by (cases v) auto
qed

lemma convertPoint_eq_Inr:
  "(convertPoint B d = Inr m) =
     (\<not> nullish d \<and> (\<exists>x. convertToInr B (field d ''price'') = Inr x
        \<and> m = JObj (AList.update ''price'' (JNum x) (spread d))))"
  by (cases d) (auto simp: convertPoint_def field_def bindE_eq_Inr)

lemma convertPoint_returns:
  "(\<exists>m. convertPoint B d = Inr m) = (\<not> nullish d \<and> coercible (field d ''price''))"
  by (auto simp: convertPoint_eq_Inr simp flip: convertToInr_returns [of B])

lemma convertedHistorical_eq_Inr:
  "(convertedHistorical B h = Inr out) =
     (\<exists>xs. (h = JArr xs \<or> (\<not> truthy h \<and> xs = []))
        \<and> list_all2 (\<lambda>d m. convertPoint B d = Inr m) xs out)"
  by (simp add: convertedHistorical_def callMap_eq_Inr orElse_eq_JArr)

lemma convertedHistorical_returns:
  "(\<exists>conv. convertedHistorical B h = Inr conv) = payloadOk ''price'' h"
  unfolding convertedHistorical_def callMap_returns convertPoint_returns payloadOk_def
  by (rule refl)

lemma converted_not_nullish:
  assumes "convertedHistorical B h = Inr conv"
  shows "\<forall>d \<in> set conv. \<not> nullish d"
proof -
  from assms obtain xs where "list_all2 (\<lambda>d m. convertPoint B d = Inr m) xs conv"
    by (auto simp: convertedHistorical_eq_Inr)
  then have "\<forall>i < length conv. \<exists>kvs. conv ! i = JObj kvs"
    by (auto simp: list_all2_conv_all_nth convertPoint_eq_Inr)
  then have "\<forall>d \<in> set conv. \<exists>kvs. d = JObj kvs"
    by (auto simp: in_set_conv_nth)
  then show ?thesis
    by auto
qed

lemma historicalProjection_eq_Inr:
  "(historicalProjection d = Inr m) =
     (\<not> nullish d \<and> m = JObj [(''date'', field d ''date''), (''price'', field d ''price'')])"
  by (cases d) (auto simp: historicalProjection_def field_def)

lemma forecastProjection_eq_Inr:
  "(forecastProjection B d = Inr m) =
     (\<not> nullish d \<and> (\<exists>x. convertToInr B (field d ''yhat'') = Inr x
        \<and> m = JObj [(''date'', field d ''ds''), (''prediction'', JNum x)]))"
  by (cases d) (auto simp: forecastProjection_def field_def bindE_eq_Inr)

lemma forecastProjection_returns:
  "(\<exists>m. forecastProjection B d = Inr m) = (\<not> nullish d \<and> coercible (field d ''yhat''))"
  by (auto simp: forecastProjection_eq_Inr simp flip: convertToInr_returns [of B])

lemma merged_eq_Inr:
  "(merged B hs p = Inr ms) =
     (\<exists>a b. ms = a @ b \<and> list_all2 (\<lambda>d m. historicalProjection d = Inr m) hs a
        \<and> callMap (orElse p (JArr [])) (forecastProjection B) = Inr b)"
  by (auto simp: merged_def bindE_eq_Inr mapE_eq_Inr)

lemma merged_returns:
  assumes "\<forall>d \<in> set conv. \<not> nullish d"
  shows "(\<exists>ms. merged B conv p = Inr ms) = payloadOk ''yhat'' p"
proof -
  have "\<exists>a. mapE historicalProjection conv = Inr a"
    using assms by (simp add: mapE_returns historicalProjection_eq_Inr)
  then have "(\<exists>ms. merged B conv p = Inr ms)
      = (\<exists>b. callMap (orElse p (JArr [])) (forecastProjection B) = Inr b)"
    by (auto simp: merged_def bindE_eq_Inr)
  then show ?thesis
    unfolding callMap_returns forecastProjection_returns payloadOk_def
    by simp
qed

lemma convertedField_eq_Inr:
  "(convertedField B obj k = Inr y) =
     (\<not> nullish obj \<and> (\<exists>n. ToNumber B (coalesce (field obj k) zero) = Inr n
        \<and> y = JNum (parseFloat_toFixed2 (num_mul n (Fin 83)))))"
  by (cases "nullish obj")
    (auto simp: convertedField_def Get_field Get_nullish bindE_eq_Inr convertToInr_eq_Inr)

lemma numberField_eq_Inr:
  "(numberField B obj k = Inr y) =
     (\<not> nullish obj \<and> (\<exists>n. ToNumber B (coalesce (field obj k) zero) = Inr n \<and> y = JNum n))"
  by (cases "nullish obj")
    (auto simp: numberField_def Get_field Get_nullish bindE_eq_Inr)

lemma regressionPart_eq_Inr:
  "(regressionPart B R = Inr y) =
     (\<not> nullish R \<and> (\<exists>mae rmse mape r2.
        ToNumber B (coalesce (field R ''mae'') zero) = Inr mae
      \<and> ToNumber B (coalesce (field R ''rmse'') zero) = Inr rmse
      \<and> ToNumber B (coalesce (field R ''mape'') zero) = Inr mape
      \<and> ToNumber B (coalesce (field R ''r2'') zero) = Inr r2
      \<and> y = JObj (AList.update ''r2'' (JNum r2) (AList.update ''mape'' (JNum mape)
              (AList.update ''rmse'' (JNum (parseFloat_toFixed2 (num_mul rmse (Fin 83))))
              (AList.update ''mae'' (JNum (parseFloat_toFixed2 (num_mul mae (Fin 83))))
                (spread R)))))))"
  unfolding regressionPart_def bindE_eq_Inr convertedField_eq_Inr numberField_eq_Inr
  by auto

lemma classificationPart_eq_Inr:
  "(classificationPart B C = Inr y) =
     (\<not> nullish C \<and> (\<exists>accuracy precision recall f1.
        ToNumber B (coalesce (field C ''accuracy'') zero) = Inr accuracy
      \<and> ToNumber B (coalesce (field C ''precision'') zero) = Inr precision
      \<and> ToNumber B (coalesce (field C ''recall'') zero) = Inr recall
      \<and> ToNumber B (coalesce (field C ''f1'') zero) = Inr f1
      \<and> y = JObj (AList.update ''confusion_matrix''
                (orElse (field C ''confusion_matrix'') emptyMatrix)
              (AList.update ''f1'' (JNum f1) (AList.update ''recall'' (JNum recall)
              (AList.update ''precision'' (JNum precision)
              (AList.update ''accuracy'' (JNum accuracy) (spread C))))))))"
proof (cases "nullish C")
  case True
  then show ?thesis
    by (simp add: classificationPart_def numberField_eq_Inr bindE_eq_Inr)
next
  case False
  then have "Get C ''confusion_matrix'' = Inr (field C ''confusion_matrix'')"
    by (rule Get_field)
  with False show ?thesis
    unfolding classificationPart_def bindE_eq_Inr numberField_eq_Inr
    by auto
qed

lemma regressionPart_returns:
  "\<not> nullish R \<Longrightarrow> (\<exists>y. regressionPart B R = Inr y) =
     (coercible (field R ''mae'') \<and> coercible (field R ''rmse'')
      \<and> coercible (field R ''mape'') \<and> coercible (field R ''r2''))"
  unfolding regressionPart_eq_Inr coalesce_number [of _ B] by blast

lemma classificationPart_returns:
  "\<not> nullish C \<Longrightarrow> (\<exists>y. classificationPart B C = Inr y) =
     (coercible (field C ''accuracy'') \<and> coercible (field C ''precision'')
      \<and> coercible (field C ''recall'') \<and> coercible (field C ''f1''))"
  unfolding classificationPart_eq_Inr coalesce_number [of _ B] by blast

lemma leaves_numbers:
  assumes "leavesConvert m"
    and "R = orElse (field m ''regression'') (JObj [])"
    and "C = orElse (field m ''classification'') (JObj [])"
  shows "\<exists>mae rmse mape r2 accuracy precision recall f1.
        ToNumber B (coalesce (field R ''mae'') zero) = Inr mae
      \<and> ToNumber B (coalesce (field R ''rmse'') zero) = Inr rmse
      \<and> ToNumber B (coalesce (field R ''mape'') zero) = Inr mape
      \<and> ToNumber B (coalesce (field R ''r2'') zero) = Inr r2
      \<and> ToNumber B (coalesce (field C ''accuracy'') zero) = Inr accuracy
      \<and> ToNumber B (coalesce (field C ''precision'') zero) = Inr precision
      \<and> ToNumber B (coalesce (field C ''recall'') zero) = Inr recall
      \<and> ToNumber B (coalesce (field C ''f1'') zero) = Inr f1"
proof -
  have n: "\<exists>n. ToNumber B (coalesce v zero) = Inr n" if "coercible v" for v
    using that by (simp add: ToNumber_returns coercible_coalesce)
  from assms show ?thesis
    by (simp add: leavesConvert_def Let_def n)
qed

lemma transformMetrics_unfold:
  assumes "truthy m" "\<not> truthy (field m ''error'')"
  shows "transformMetrics B m =
     bindE (regressionPart B (orElse (field m ''regression'') (JObj []))) (\<lambda>reg.
     bindE (classificationPart B (orElse (field m ''classification'') (JObj []))) (\<lambda>cls.
       Inr (JObj (AList.update ''classification'' cls
              (AList.update ''regression'' reg (spread m))))))"
  using assms by (simp add: transformMetrics_def Get_field truthy_not_nullish)

lemma transformMetrics_null:
  "(transformMetrics B m = Inr JNull) = (\<not> truthy m \<or> truthy (field m ''error''))"
proof (cases "truthy m \<and> \<not> truthy (field m ''error'')")
  case True
  then show ?thesis
    by (auto simp: transformMetrics_unfold bindE_eq_Inr)
next
  case False
  then show ?thesis
    by (auto simp: transformMetrics_def Get_field truthy_not_nullish)
qed

lemma transformMetrics_returns:
  "(\<exists>r. transformMetrics B m = Inr r) = metricsOk m"
proof (cases "truthy m \<and> \<not> truthy (field m ''error'')")
  case True
  have "(\<exists>r. transformMetrics B m = Inr r)
     = ((\<exists>y. regressionPart B (orElse (field m ''regression'') (JObj [])) = Inr y)
        \<and> (\<exists>y. classificationPart B (orElse (field m ''classification'') (JObj [])) = Inr y))"
    using True by (auto simp: transformMetrics_unfold bindE_eq_Inr)
  with True show ?thesis
    by (simp add: regressionPart_returns classificationPart_returns truthy_not_nullish
        metricsOk_def leavesConvert_def Let_def)
next
  case False
  then have "transformMetrics B m = Inr JNull"
    by (simp add: transformMetrics_null)
  with False show ?thesis
    by (auto simp: metricsOk_def)
qed

lemma transformMetrics_normalized:
  assumes m: "truthy m" "\<not> truthy (field m ''error'')"
    and R: "R = orElse (field m ''regression'') (JObj [])"
    and C: "C = orElse (field m ''classification'') (JObj [])"
    and leaves: "leavesConvert m"
  shows "\<exists>top reg cls mae rmse mape r2 accuracy precision recall f1.
      transformMetrics B m = Inr (JObj top)
    \<and> map_of top ''regression'' = Some (JObj reg)
    \<and> map_of top ''classification'' = Some (JObj cls)
    \<and> (\<forall>k. k \<noteq> ''regression'' \<and> k \<noteq> ''classification''
          \<longrightarrow> map_of top k = map_of (spread m) k)
    \<and> ToNumber B (coalesce (field R ''mae'') zero) = Inr mae
    \<and> map_of reg ''mae'' = Some (JNum (parseFloat_toFixed2 (num_mul mae (Fin 83))))
    \<and> ToNumber B (coalesce (field R ''rmse'') zero) = Inr rmse
    \<and> map_of reg ''rmse'' = Some (JNum (parseFloat_toFixed2 (num_mul rmse (Fin 83))))
    \<and> ToNumber B (coalesce (field R ''mape'') zero) = Inr mape
    \<and> map_of reg ''mape'' = Some (JNum mape)
    \<and> ToNumber B (coalesce (field R ''r2'') zero) = Inr r2
    \<and> map_of reg ''r2'' = Some (JNum r2)
    \<and> (\<forall>k. k \<notin> {''mae'', ''rmse'', ''mape'', ''r2''}
          \<longrightarrow> map_of reg k = map_of (spread R) k)
    \<and> ToNumber B (coalesce (field C ''accuracy'') zero) = Inr accuracy
    \<and> map_of cls ''accuracy'' = Some (JNum accuracy)
    \<and> ToNumber B (coalesce (field C ''precision'') zero) = Inr precision
    \<and> map_of cls ''precision'' = Some (JNum precision)
    \<and> ToNumber B (coalesce (field C ''recall'') zero) = Inr recall
    \<and> map_of cls ''recall'' = Some (JNum recall)
    \<and> ToNumber B (coalesce (field C ''f1'') zero) = Inr f1
    \<and> map_of cls ''f1'' = Some (JNum f1)
    \<and> map_of cls ''confusion_matrix''
         = Some (if truthy (field C ''confusion_matrix'')
                 then field C ''confusion_matrix'' else emptyMatrix)
    \<and> (\<forall>k. k \<notin> {''accuracy'', ''precision'', ''recall'', ''f1'', ''confusion_matrix''}
          \<longrightarrow> map_of cls k = map_of (spread C) k)"
proof -
  from leaves_numbers [OF leaves R C, of B]
  obtain mae rmse mape r2 accuracy precision recall f1 where
       n: "ToNumber B (coalesce (field R ''mae'') zero) = Inr mae"
          "ToNumber B (coalesce (field R ''rmse'') zero) = Inr rmse"
          "ToNumber B (coalesce (field R ''mape'') zero) = Inr mape"
          "ToNumber B (coalesce (field R ''r2'') zero) = Inr r2"
          "ToNumber B (coalesce (field C ''accuracy'') zero) = Inr accuracy"
          "ToNumber B (coalesce (field C ''precision'') zero) = Inr precision"
          "ToNumber B (coalesce (field C ''recall'') zero) = Inr recall"
          "ToNumber B (coalesce (field C ''f1'') zero) = Inr f1"
    by blast
  define reg where "reg = AList.update ''r2'' (JNum r2) (AList.update ''mape'' (JNum mape)
              (AList.update ''rmse'' (JNum (parseFloat_toFixed2 (num_mul rmse (Fin 83))))
              (AList.update ''mae'' (JNum (parseFloat_toFixed2 (num_mul mae (Fin 83))))
                (spread R))))"
  define cls where "cls = AList.update ''confusion_matrix''
                (orElse (field C ''confusion_matrix'') emptyMatrix)
              (AList.update ''f1'' (JNum f1) (AList.update ''recall'' (JNum recall)
              (AList.update ''precision'' (JNum precision)
              (AList.update ''accuracy'' (JNum accuracy) (spread C)))))"
  define top where "top = AList.update ''classification'' (JObj cls)
              (AList.update ''regression'' (JObj reg) (spread m))"
  have nR: "\<not> nullish R" and nC: "\<not> nullish C"
    by (simp_all add: R C truthy_not_nullish)
  have r: "regressionPart B R = Inr (JObj reg)"
    using n nR by (simp add: regressionPart_eq_Inr reg_def)
  have c: "classificationPart B C = Inr (JObj cls)"
    using n nC by (simp add: classificationPart_eq_Inr cls_def)
  have t: "transformMetrics B m = Inr (JObj top)"
    using m r c by (simp add: transformMetrics_unfold top_def flip: R C)
  have t1: "map_of top ''regression'' = Some (JObj reg)"
    and t2: "map_of top ''classification'' = Some (JObj cls)"
    and t3: "\<forall>k. k \<noteq> ''regression'' \<and> k \<noteq> ''classification''
          \<longrightarrow> map_of top k = map_of (spread m) k"
    by (simp_all add: top_def map_of_update)
  have r1: "map_of reg ''mae'' = Some (JNum (parseFloat_toFixed2 (num_mul mae (Fin 83))))"
    and r2: "map_of reg ''rmse'' = Some (JNum (parseFloat_toFixed2 (num_mul rmse (Fin 83))))"
    and r3: "map_of reg ''mape'' = Some (JNum mape)"
    and r4: "map_of reg ''r2'' = Some (JNum r2)"
    and r5: "\<forall>k. k \<notin> {''mae'', ''rmse'', ''mape'', ''r2''}
          \<longrightarrow> map_of reg k = map_of (spread R) k"
    by (simp_all add: reg_def map_of_update)
  have c1: "map_of cls ''accuracy'' = Some (JNum accuracy)"
    and c2: "map_of cls ''precision'' = Some (JNum precision)"
    and c3: "map_of cls ''recall'' = Some (JNum recall)"
    and c4: "map_of cls ''f1'' = Some (JNum f1)"
    and c5: "map_of cls ''confusion_matrix''
         = Some (if truthy (field C ''confusion_matrix'')
                 then field C ''confusion_matrix'' else emptyMatrix)"
    and c6: "\<forall>k. k \<notin> {''accuracy'', ''precision'', ''recall'', ''f1'', ''confusion_matrix''}
          \<longrightarrow> map_of cls k = map_of (spread C) k"
    by (simp_all add: cls_def map_of_update orElse_def)
  from t t1 t2 t3 n r1 r2 r3 r4 r5 c1 c2 c3 c4 c5 c6 show ?thesis
    by blast
qed

section \<open>C1: where the transformations return\<close>

text \<open>
  C1, as amended. The claim that the three transformations never throw on any parsed
  JSON fails. What holds: the historical conversion returns exactly when the historical
  payload is falsy or an array whose elements are neither \<^verbatim>\<open>null\<close> nor \<^verbatim>\<open>undefined\<close>
  and have a \<^verbatim>\<open>price\<close> that converts to a number; given its result, the merged series
  returns exactly when the forecast payload is falsy or such an array with respect to
  \<^verbatim>\<open>yhat\<close>; and \<^verbatim>\<open>transformMetrics\<close> returns exactly when the metrics payload is
  falsy, or has a truthy \<^verbatim>\<open>error\<close>, or its eight numeric leaves convert to numbers.
  On every other input the transformation throws a \<^verbatim>\<open>TypeError\<close>.
\<close>

theorem transformations_return_iff:
  "(\<exists>conv. convertedHistorical B h = Inr conv) = payloadOk ''price'' h
   \<and> (convertedHistorical B h = Inr conv
        \<longrightarrow> (\<exists>ms. merged B conv p = Inr ms) = payloadOk ''yhat'' p)
   \<and> (\<exists>r. transformMetrics B m = Inr r) = metricsOk m"
  using convertedHistorical_returns [of B h] merged_returns [of conv B p]
    converted_not_nullish [of B h conv] transformMetrics_returns [of B m]
  by blast

theorem transformations_return_iff_witness:
  "(\<exists>conv. convertedHistorical exampleBuiltins
        (JArr [JObj [(''date'', JStr ''d1''), (''price'', JNum (Fin 100))], JStr ''x'']) = Inr conv)
   \<and> (\<exists>ms. merged exampleBuiltins [JObj [(''date'', JStr ''d1''), (''price'', JNum (Fin 8300))]]
        JNull = Inr ms)
   \<and> (\<exists>r. transformMetrics exampleBuiltins (JObj [(''regression'', JBool True)]) = Inr r)
   \<and> (\<nexists>conv. convertedHistorical exampleBuiltins (JStr ''x'') = Inr conv)"
  using transformations_return_iff [of exampleBuiltins
      "JArr [JObj [(''date'', JStr ''d1''), (''price'', JNum (Fin 100))], JStr ''x'']"
      "[]" JNull "JObj [(''regression'', JBool True)]"]
    transformations_return_iff [of exampleBuiltins
      "JArr [JObj [(''date'', JStr ''d1''), (''price'', JNum (Fin 100))]]"
      "[JObj [(''date'', JStr ''d1''), (''price'', JNum (Fin 8300))]]" JNull JNull]
    transformations_return_iff [of exampleBuiltins "JStr ''x''" "[]" JNull JNull]
  by (simp add: payloadOk_def metricsOk_def leavesConvert_def field_def orElse_def
      convertedHistorical_def callMap_def convertPoint_def convertToInr_def
      coalesce_def zero_def USD_TO_INR_def conv_evals)

text \<open>
  The claim C1 as stated is false: an error object or an array holding \<^verbatim>\<open>null\<close> as
  historical payload, a number as forecast payload, and a metrics leaf that is an object
  with an own \<^verbatim>\<open>toString\<close> property are parsed JSON on which the transformations throw.
\<close>

theorem transformations_throw_counterexample:
  "is_json (JObj [(''error'', JStr ''no data'')])
   \<and> convertedHistorical exampleBuiltins (JObj [(''error'', JStr ''no data'')]) = Inl TypeError
   \<and> is_json (JArr [JNull])
   \<and> convertedHistorical exampleBuiltins (JArr [JNull]) = Inl TypeError
   \<and> is_json (JNum (Fin 5))
   \<and> merged exampleBuiltins [] (JNum (Fin 5)) = Inl TypeError
   \<and> is_json (JObj [(''regression'', JObj [(''mae'', JObj [(''toString'', JNum (Fin 1))])])])
   \<and> transformMetrics exampleBuiltins
        (JObj [(''regression'', JObj [(''mae'', JObj [(''toString'', JNum (Fin 1))])])])
      = Inl TypeError"
  by (simp add: convertedHistorical_def merged_def callMap_def orElse_def convertPoint_def
      transformMetrics_def regressionPart_def convertedField_def convertToInr_def
      coalesce_def zero_def fl_1 fl_5)

section \<open>C2: length and order of the merged series\<close>

text \<open>
  C2. For a list \<open>hs\<close> of historical points and a list \<open>fs\<close> of forecast points, the
  merged series has length \<open>|hs| + |fs|\<close>; its first \<open>|hs|\<close> points are the
  \<open>{date, price}\<close> projections of \<open>hs\<close> in order and the rest are the
  \<open>{date, prediction}\<close> projections of \<open>fs\<close> in order. Nothing is removed, sorted or
  interpolated, whatever the dates are. (A point is any value other than \<^verbatim>\<open>null\<close> and
  \<^verbatim>\<open>undefined\<close>; the forecast value must be one that converts to a number.)
\<close>

theorem merged_length_order:
  assumes hs: "\<forall>d \<in> set hs. \<not> nullish d"
    and fs: "\<forall>d \<in> set fs. \<not> nullish d \<and> coercible (field d ''yhat'')"
  shows "\<exists>ms. merged B hs (JArr fs) = Inr ms
     \<and> length ms = length hs + length fs
     \<and> take (length hs) ms
         = map (\<lambda>d. JObj [(''date'', field d ''date''), (''price'', field d ''price'')]) hs
     \<and> list_all2 (\<lambda>d m. \<exists>x. convertToInr B (field d ''yhat'') = Inr x
           \<and> m = JObj [(''date'', field d ''ds''), (''prediction'', JNum x)])
         fs (drop (length hs) ms)"
proof -
  let ?a = "map (\<lambda>d. JObj [(''date'', field d ''date''), (''price'', field d ''price'')]) hs"
  have a: "list_all2 (\<lambda>d m. historicalProjection d = Inr m) hs ?a"
    using hs by (simp add: list_all2_conv_all_nth historicalProjection_eq_Inr)
  have "\<forall>d \<in> set fs. \<exists>m. forecastProjection B d = Inr m"
    using fs convertToInr_returns by (simp add: forecastProjection_eq_Inr)
  then obtain b where b: "mapE (forecastProjection B) fs = Inr b"
    using mapE_returns [of "forecastProjection B" fs] by blast
  then have b2: "list_all2 (\<lambda>d m. forecastProjection B d = Inr m) fs b"
    by (simp add: mapE_eq_Inr)
  have m: "merged B hs (JArr fs) = Inr (?a @ b)"
    using a b2 by (auto simp: merged_eq_Inr callMap_eq_Inr orElse_eq_JArr)
  have len: "length b = length fs"
    using b2 by (simp add: list_all2_lengthD)
  have "list_all2 (\<lambda>d m. \<exists>x. convertToInr B (field d ''yhat'') = Inr x
           \<and> m = JObj [(''date'', field d ''ds''), (''prediction'', JNum x)]) fs b"
    using b2 by (rule list_all2_mono) (simp add: forecastProjection_eq_Inr)
  with m len show ?thesis by simp
qed

theorem merged_length_order_witness:
  "\<exists>ms. merged exampleBuiltins
        [JObj [(''date'', JStr ''d1''), (''price'', JNum (Fin 8300))],
         JObj [(''date'', JStr ''d2''), (''price'', JNum (Fin 9130))]]
        (JArr [JObj [(''ds'', JStr ''d2''), (''yhat'', JNum (Fin 2))]]) = Inr ms
     \<and> length ms = 2 + 1
     \<and> take 2 ms = [JObj [(''date'', JStr ''d1''), (''price'', JNum (Fin 8300))],
                     JObj [(''date'', JStr ''d2''), (''price'', JNum (Fin 9130))]]
     \<and> drop 2 ms = [JObj [(''date'', JStr ''d2''), (''prediction'', JNum (Fin 166))]]"
  using merged_length_order [of
      "[JObj [(''date'', JStr ''d1''), (''price'', JNum (Fin 8300))],
        JObj [(''date'', JStr ''d2''), (''price'', JNum (Fin 9130))]]"
      "[JObj [(''ds'', JStr ''d2''), (''yhat'', JNum (Fin 2))]]" exampleBuiltins]
  by (simp add: eval_nat_numeral field_def list_all2_Cons1 convertToInr_def
      coalesce_def zero_def USD_TO_INR_def conv_evals)

section \<open>C3: the historical conversion\<close>

text \<open>
  C3. For a list \<open>hs\<close> of historical records the converted list has the same length
  and order; the price of the \<open>i\<close>-th output is the number of the \<open>i\<close>-th input price
  (0 when the price is missing or \<^verbatim>\<open>null\<close>) multiplied by 83 and rounded to two
  decimals, as \<^verbatim>\<open>*\<close> and \<^verbatim>\<open>toFixed(2)\<close> compute them on doubles, and every other own
  property of the record is the same in the output. For a price that is the number
  \<open>x\<close> the output price is \<open>parseFloat_toFixed2 (num_mul x (Fin 83))\<close>, and for a
  missing price it is 0.
\<close>

theorem convertedHistorical_points:
  assumes hs: "\<forall>d \<in> set hs. \<not> nullish d \<and> coercible (field d ''price'')"
  shows "\<exists>out. convertedHistorical B (JArr hs) = Inr out \<and> length out = length hs
     \<and> (\<forall>i < length hs. \<exists>kvs n. out ! i = JObj kvs
          \<and> ToNumber B (coalesce (field (hs ! i) ''price'') zero) = Inr n
          \<and> map_of kvs ''price'' = Some (JNum (parseFloat_toFixed2 (num_mul n (Fin 83))))
          \<and> (\<forall>x. field (hs ! i) ''price'' = JNum x
                \<longrightarrow> map_of kvs ''price''
                      = Some (JNum (parseFloat_toFixed2 (num_mul x (Fin 83)))))
          \<and> (nullish (field (hs ! i) ''price'')
                \<longrightarrow> map_of kvs ''price'' = Some (JNum (Fin 0)))
          \<and> (\<forall>k. k \<noteq> ''price'' \<longrightarrow> map_of kvs k = map_of (spread (hs ! i)) k))"
proof -
  have "\<forall>d \<in> set hs. \<exists>m. convertPoint B d = Inr m"
    using hs convertToInr_returns by (simp add: convertPoint_eq_Inr)
  then obtain out where "mapE (convertPoint B) hs = Inr out"
    using mapE_returns [of "convertPoint B" hs] by blast
  then have rel: "list_all2 (\<lambda>d m. convertPoint B d = Inr m) hs out"
    by (simp add: mapE_eq_Inr)
  then have res: "convertedHistorical B (JArr hs) = Inr out"
    by (auto simp: convertedHistorical_eq_Inr)
  have len: "length out = length hs"
    using rel by (simp add: list_all2_lengthD)
  have "\<exists>kvs n. out ! i = JObj kvs
          \<and> ToNumber B (coalesce (field (hs ! i) ''price'') zero) = Inr n
          \<and> map_of kvs ''price'' = Some (JNum (parseFloat_toFixed2 (num_mul n (Fin 83))))
          \<and> (\<forall>x. field (hs ! i) ''price'' = JNum x
                \<longrightarrow> map_of kvs ''price''
                      = Some (JNum (parseFloat_toFixed2 (num_mul x (Fin 83)))))
          \<and> (nullish (field (hs ! i) ''price'')
                \<longrightarrow> map_of kvs ''price'' = Some (JNum (Fin 0)))
          \<and> (\<forall>k. k \<noteq> ''price'' \<longrightarrow> map_of kvs k = map_of (spread (hs ! i)) k)"
    if i: "i < length hs" for i
  proof -
    from rel i have "convertPoint B (hs ! i) = Inr (out ! i)"
      by (simp add: list_all2_conv_all_nth)
    then obtain n where n: "ToNumber B (coalesce (field (hs ! i) ''price'') zero) = Inr n"
      and o: "out ! i = JObj (AList.update ''price''
                (JNum (parseFloat_toFixed2 (num_mul n (Fin 83)))) (spread (hs ! i)))"
      by (auto simp: convertPoint_eq_Inr convertToInr_eq_Inr)
    have q: "map_of (AList.update ''price''
                (JNum (parseFloat_toFixed2 (num_mul n (Fin 83)))) (spread (hs ! i))) ''price''
             = Some (JNum (parseFloat_toFixed2 (num_mul x (Fin 83))))"
      if "field (hs ! i) ''price'' = JNum x" for x
      using n that by (auto simp: map_of_update coalesce_def)
    have z: "map_of (AList.update ''price''
                (JNum (parseFloat_toFixed2 (num_mul n (Fin 83)))) (spread (hs ! i))) ''price''
             = Some (JNum (Fin 0))"
      if "nullish (field (hs ! i) ''price'')"
      using n that by (auto simp: map_of_update coalesce_def zero_def conv_0)
    show ?thesis
      using n o q z by (simp add: map_of_update)
  qed
  with res len show ?thesis by blast
qed

text \<open>
  The witness: \<^verbatim>\<open>1.2045\<close> becomes \<^verbatim>\<open>99.97\<close>, \<^verbatim>\<open>0.095\<close> becomes \<^verbatim>\<open>7.88\<close> (the double
  product is just below \<^verbatim>\<open>7.885\<close>), \<^verbatim>\<open>10.235\<close> becomes \<^verbatim>\<open>849.5\<close>,
  \<^verbatim>\<open>0.004518072289156626\<close> becomes \<^verbatim>\<open>0.38\<close> (the double product is \<^verbatim>\<open>0.375\<close>, a
  tie), \<^verbatim>\<open>-0.00001\<close> becomes \<open>-0\<close>, and a missing price becomes 0; dates and volumes
  stay.
\<close>

theorem convertedHistorical_points_witness:
  "\<exists>out. convertedHistorical exampleBuiltins
        (JArr [JObj [(''date'', JStr ''d1''), (''price'', JNum (decimal 12045 4)),
                     (''volume'', JNum (Fin 7))],
               JObj [(''date'', JStr ''d2'')],
               JObj [(''price'', JNum (decimal 95 3)), (''volume'', JNum (Fin 9))],
               JObj [(''price'', JNum (decimal 10235 3))],
               JObj [(''price'', JNum (decimal 4518072289156626 18))],
               JObj [(''price'', JNum (decimal (- 1) 5))]]) = Inr out
     \<and> out = [JObj [(''date'', JStr ''d1''), (''price'', JNum (decimal 9997 2)),
                      (''volume'', JNum (Fin 7))],
               JObj [(''date'', JStr ''d2''), (''price'', JNum (Fin 0))],
               JObj [(''price'', JNum (decimal 788 2)), (''volume'', JNum (Fin 9))],
               JObj [(''price'', JNum (decimal 84950 2))],
               JObj [(''price'', JNum (decimal 38 2))],
               JObj [(''price'', JNum NZero)]]"
  using convertedHistorical_points [of
      "[JObj [(''date'', JStr ''d1''), (''price'', JNum (decimal 12045 4)),
              (''volume'', JNum (Fin 7))],
        JObj [(''date'', JStr ''d2'')],
        JObj [(''price'', JNum (decimal 95 3)), (''volume'', JNum (Fin 9))],
        JObj [(''price'', JNum (decimal 10235 3))],
        JObj [(''price'', JNum (decimal 4518072289156626 18))],
        JObj [(''price'', JNum (decimal (- 1) 5))]]" exampleBuiltins]
  by (simp add: convertedHistorical_def callMap_def orElse_def convertPoint_def
      convertToInr_def coalesce_def zero_def USD_TO_INR_def conv_evals
      conv_0_095 conv_1_2045 conv_10_235 conv_tie conv_minus_tiny)

section \<open>C4: the null result of transformMetrics\<close>

text \<open>
  C4, as amended. \<^verbatim>\<open>transformMetrics\<close> returns \<^verbatim>\<open>null\<close>, as a value and not by
  throwing, whenever its input is falsy (in particular \<^verbatim>\<open>null\<close>) or has a truthy
  \<^verbatim>\<open>error\<close> field (in particular \<^verbatim>\<open>{error: "x"}\<close>).
\<close>

theorem transformMetrics_null_marker:
  assumes "\<not> truthy m \<or> truthy (field m ''error'')"
  shows "transformMetrics B m = Inr JNull"
  using assms by (simp add: transformMetrics_null)

theorem transformMetrics_null_marker_witness:
  "transformMetrics exampleBuiltins JNull = Inr JNull
   \<and> transformMetrics exampleBuiltins (JObj [(''error'', JStr ''x'')]) = Inr JNull"
  using transformMetrics_null_marker [of JNull exampleBuiltins]
    transformMetrics_null_marker [of "JObj [(''error'', JStr ''x'')]" exampleBuiltins]
  by (simp add: field_def)

text \<open>
  The claim C4 as stated, \<^verbatim>\<open>null\<close> for every input that carries an \<^verbatim>\<open>error\<close> field,
  is false: for \<^verbatim>\<open>{error: ""}\<close> the result is a metrics object.
\<close>

theorem transformMetrics_error_field_counterexample:
  "transformMetrics exampleBuiltins (JObj [(''error'', JStr [])])
   = Inr (JObj [(''error'', JStr []),
                (''regression'', JObj [(''mae'', JNum (Fin 0)), (''rmse'', JNum (Fin 0)),
                                       (''mape'', JNum (Fin 0)), (''r2'', JNum (Fin 0))]),
                (''classification'', JObj [(''accuracy'', JNum (Fin 0)),
                                           (''precision'', JNum (Fin 0)),
                                           (''recall'', JNum (Fin 0)), (''f1'', JNum (Fin 0)),
                                           (''confusion_matrix'', emptyMatrix)])])"
  by (simp add: transformMetrics_def regressionPart_def classificationPart_def
      convertedField_def numberField_def orElse_def
      convertToInr_def coalesce_def zero_def USD_TO_INR_def conv_evals)

section \<open>C5: the fields of the normalised metrics\<close>

text \<open>
  C5. For a metrics input \<open>m\<close> that is truthy and has no truthy \<^verbatim>\<open>error\<close>, with
  \<open>R\<close> its \<^verbatim>\<open>regression\<close> and \<open>C\<close> its \<^verbatim>\<open>classification\<close> (the empty object when
  falsy), \<^verbatim>\<open>transformMetrics\<close> returns an object in which \<^verbatim>\<open>regression.mae\<close> and
  \<^verbatim>\<open>regression.rmse\<close> are the numbers of the input fields (0 when missing) multiplied
  by 83 and rounded to two decimals, as \<^verbatim>\<open>*\<close> and \<^verbatim>\<open>toFixed(2)\<close> compute them on
  doubles; \<^verbatim>\<open>mape\<close>, \<^verbatim>\<open>r2\<close>, \<^verbatim>\<open>accuracy\<close>, \<^verbatim>\<open>precision\<close>, \<^verbatim>\<open>recall\<close> and \<^verbatim>\<open>f1\<close>
  are the numbers of the input fields (0 when missing), unconverted;
  \<^verbatim>\<open>confusion_matrix\<close> is the input's, or the all-zero matrix when that is absent; and
  every other property of \<open>m\<close>, \<open>R\<close> and \<open>C\<close> is passed through.
\<close>

theorem transformMetrics_fields:
  assumes m: "truthy m" "\<not> truthy (field m ''error'')"
    and R: "R = orElse (field m ''regression'') (JObj [])"
    and C: "C = orElse (field m ''classification'') (JObj [])"
    and leaves: "leavesConvert m"
  shows "\<exists>top reg cls mae rmse mape r2 accuracy precision recall f1.
      transformMetrics B m = Inr (JObj top)
    \<and> map_of top ''regression'' = Some (JObj reg)
    \<and> map_of top ''classification'' = Some (JObj cls)
    \<and> (\<forall>k. k \<noteq> ''regression'' \<and> k \<noteq> ''classification''
          \<longrightarrow> map_of top k = map_of (spread m) k)
    \<and> ToNumber B (coalesce (field R ''mae'') zero) = Inr mae
    \<and> map_of reg ''mae'' = Some (JNum (parseFloat_toFixed2 (num_mul mae (Fin 83))))
    \<and> ToNumber B (coalesce (field R ''rmse'') zero) = Inr rmse
    \<and> map_of reg ''rmse'' = Some (JNum (parseFloat_toFixed2 (num_mul rmse (Fin 83))))
    \<and> ToNumber B (coalesce (field R ''mape'') zero) = Inr mape
    \<and> map_of reg ''mape'' = Some (JNum mape)
    \<and> ToNumber B (coalesce (field R ''r2'') zero) = Inr r2
    \<and> map_of reg ''r2'' = Some (JNum r2)
    \<and> (\<forall>k. k \<notin> {''mae'', ''rmse'', ''mape'', ''r2''}
          \<longrightarrow> map_of reg k = map_of (spread R) k)
    \<and> ToNumber B (coalesce (field C ''accuracy'') zero) = Inr accuracy
    \<and> map_of cls ''accuracy'' = Some (JNum accuracy)
    \<and> ToNumber B (coalesce (field C ''precision'') zero) = Inr precision
    \<and> map_of cls ''precision'' = Some (JNum precision)
    \<and> ToNumber B (coalesce (field C ''recall'') zero) = Inr recall
    \<and> map_of cls ''recall'' = Some (JNum recall)
    \<and> ToNumber B (coalesce (field C ''f1'') zero) = Inr f1
    \<and> map_of cls ''f1'' = Some (JNum f1)
    \<and> map_of cls ''confusion_matrix''
         = Some (if truthy (field C ''confusion_matrix'')
                 then field C ''confusion_matrix'' else emptyMatrix)
    \<and> (\<forall>k. k \<notin> {''accuracy'', ''precision'', ''recall'', ''f1'', ''confusion_matrix''}
          \<longrightarrow> map_of cls k = map_of (spread C) k)"
  using assms by (rule transformMetrics_normalized)

text \<open>
  The witness: the scenario \<open>mae = 1\<close>, \<open>rmse = 2\<close>, which yields 83 and 166 and leaves
  the rest; and an input with further properties, no classification and the leaves
  \<^verbatim>\<open>mae: 0.095\<close>, \<^verbatim>\<open>rmse: 1.2045\<close>, which yields \<^verbatim>\<open>7.88\<close> and \<^verbatim>\<open>99.97\<close>, zeros for the
  missing leaves, the all-zero matrix, and the further properties unchanged.
\<close>

theorem transformMetrics_fields_witness:
  "transformMetrics exampleBuiltins
     (JObj [(''regression'', JObj [(''mae'', JNum (Fin 1)), (''rmse'', JNum (Fin 2)),
                                   (''mape'', JNum (Fin 3)), (''r2'', JNum (decimal 90 2))]),
            (''classification'', JObj [(''accuracy'', JNum (decimal 80 2)),
                                       (''precision'', JNum (decimal 70 2)),
                                       (''recall'', JNum (decimal 60 2)),
                                       (''f1'', JNum (decimal 65 2)),
                                       (''confusion_matrix'',
                                          JObj [(''tn'', JNum (Fin 1)), (''fp'', JNum (Fin 2)),
                                                (''fn'', JNum (Fin 3)), (''tp'', JNum (Fin 4))])])])
   = Inr
     (JObj [(''regression'', JObj [(''mae'', JNum (Fin 83)), (''rmse'', JNum (Fin 166)),
                                   (''mape'', JNum (Fin 3)), (''r2'', JNum (decimal 90 2))]),
            (''classification'', JObj [(''accuracy'', JNum (decimal 80 2)),
                                       (''precision'', JNum (decimal 70 2)),
                                       (''recall'', JNum (decimal 60 2)),
                                       (''f1'', JNum (decimal 65 2)),
                                       (''confusion_matrix'',
                                          JObj [(''tn'', JNum (Fin 1)), (''fp'', JNum (Fin 2)),
                                                (''fn'', JNum (Fin 3)), (''tp'', JNum (Fin 4))])])])
   \<and> transformMetrics exampleBuiltins
     (JObj [(''symbol'', JStr ''AAPL''),
            (''regression'', JObj [(''window'', JNum (Fin 30)), (''mae'', JNum (decimal 95 3)),
                                   (''rmse'', JNum (decimal 12045 4))]),
            (''days'', JNum (Fin 7))])
   = Inr
     (JObj [(''symbol'', JStr ''AAPL''),
            (''regression'', JObj [(''window'', JNum (Fin 30)), (''mae'', JNum (decimal 788 2)),
                                   (''rmse'', JNum (decimal 9997 2)),
                                   (''mape'', JNum (Fin 0)), (''r2'', JNum (Fin 0))]),
            (''days'', JNum (Fin 7)),
            (''classification'', JObj [(''accuracy'', JNum (Fin 0)),
                                       (''precision'', JNum (Fin 0)),
                                       (''recall'', JNum (Fin 0)), (''f1'', JNum (Fin 0)),
                                       (''confusion_matrix'',
                                          JObj [(''tn'', JNum (Fin 0)), (''fp'', JNum (Fin 0)),
                                                (''fn'', JNum (Fin 0)), (''tp'', JNum (Fin 0))])])])"
  using transformMetrics_fields [of
     "JObj [(''regression'', JObj [(''mae'', JNum (Fin 1)), (''rmse'', JNum (Fin 2)),
                                   (''mape'', JNum (Fin 3)), (''r2'', JNum (decimal 90 2))]),
            (''classification'', JObj [(''accuracy'', JNum (decimal 80 2)),
                                       (''precision'', JNum (decimal 70 2)),
                                       (''recall'', JNum (decimal 60 2)),
                                       (''f1'', JNum (decimal 65 2)),
                                       (''confusion_matrix'',
                                          JObj [(''tn'', JNum (Fin 1)), (''fp'', JNum (Fin 2)),
                                                (''fn'', JNum (Fin 3)), (''tp'', JNum (Fin 4))])])]"
     "JObj [(''mae'', JNum (Fin 1)), (''rmse'', JNum (Fin 2)),
            (''mape'', JNum (Fin 3)), (''r2'', JNum (decimal 90 2))]"
     "JObj [(''accuracy'', JNum (decimal 80 2)), (''precision'', JNum (decimal 70 2)),
            (''recall'', JNum (decimal 60 2)), (''f1'', JNum (decimal 65 2)),
            (''confusion_matrix'',
               JObj [(''tn'', JNum (Fin 1)), (''fp'', JNum (Fin 2)),
                     (''fn'', JNum (Fin 3)), (''tp'', JNum (Fin 4))])]"
     exampleBuiltins]
   transformMetrics_fields [of
     "JObj [(''symbol'', JStr ''AAPL''),
            (''regression'', JObj [(''window'', JNum (Fin 30)), (''mae'', JNum (decimal 95 3)),
                                   (''rmse'', JNum (decimal 12045 4))]),
            (''days'', JNum (Fin 7))]"
     "JObj [(''window'', JNum (Fin 30)), (''mae'', JNum (decimal 95 3)),
            (''rmse'', JNum (decimal 12045 4))]"
     "JObj []"
     exampleBuiltins]
  by (simp add: transformMetrics_def regressionPart_def classificationPart_def
      convertedField_def numberField_def orElse_def emptyMatrix_def
      convertToInr_def coalesce_def zero_def USD_TO_INR_def conv_evals
      conv_0_095 conv_1_2045)

section \<open>C6: the price change\<close>

text \<open>
  C6. \<^verbatim>\<open>getPriceChange\<close> returns \<open>{change: 0, percentage: 0}\<close> for a series of fewer
  than two points. For a longer series whose last two prices are the numbers \<open>c\<close> and
  \<open>p\<close>, the change is \<open>c - p\<close> and the percentage is that change divided by \<open>p\<close>,
  times 100, as \<^verbatim>\<open>-\<close>, \<^verbatim>\<open>/\<close> and \<^verbatim>\<open>*\<close> compute them on doubles. Nothing guards a
  zero \<open>p\<close> (\<open>+0\<close> or \<open>-0\<close>): the result is returned all the same, with an infinity or
  \<^verbatim>\<open>NaN\<close> as percentage.
\<close>

theorem getPriceChange_delta:
  "(length sd < 2 \<longrightarrow> getPriceChange B sd = Inr \<lparr>change = Fin 0, percentage = Fin 0\<rparr>)
   \<and> (2 \<le> length sd
        \<and> Get (last sd) ''price'' = Inr (JNum c)
        \<and> Get (sd ! (length sd - 2)) ''price'' = Inr (JNum p)
      \<longrightarrow> getPriceChange B sd
            = Inr \<lparr>change = num_sub c p,
                   percentage = num_mul (num_div (num_sub c p) p) (Fin 100)\<rparr>
          \<and> (is_zero p
                \<longrightarrow> num_mul (num_div (num_sub c p) p) (Fin 100) \<in> {NaN, PInf, NInf}))"
proof -
  have g: "getPriceChange B sd
            = Inr \<lparr>change = num_sub c p,
                   percentage = num_mul (num_div (num_sub c p) p) (Fin 100)\<rparr>"
    if "2 \<le> length sd" "Get (last sd) ''price'' = Inr (JNum c)"
      "Get (sd ! (length sd - 2)) ''price'' = Inr (JNum p)"
  proof -
    from that(1) have "sd \<noteq> []" by auto
    then have "sd ! (length sd - 1) = last sd"
      by (simp add: last_conv_nth)
    with that show ?thesis
      by (simp add: getPriceChange_def)
  qed
  have s: "length sd < 2 \<longrightarrow> getPriceChange B sd = Inr \<lparr>change = Fin 0, percentage = Fin 0\<rparr>"
    by (simp add: getPriceChange_def)
  from s g zero_previous [of p "num_sub c p"] show ?thesis by blast
qed

text \<open>
  The witness: stored prices 100 and 110 give change 10 and percentage 10; stored
  prices 83 and \<^verbatim>\<open>91.3\<close> give \<^verbatim>\<open>8.299999999999997\<close> and \<^verbatim>\<open>9.999999999999996\<close>; a stored
  previous price \<open>-0\<close> before 83 gives change 83 and percentage \<^verbatim>\<open>-Infinity\<close>; one point
  gives zeros.
\<close>

theorem getPriceChange_delta_witness:
  "getPriceChange exampleBuiltins
      [JObj [(''date'', JStr ''d1''), (''price'', JNum (Fin 100))],
       JObj [(''date'', JStr ''d2''), (''price'', JNum (Fin 110))]]
     = Inr \<lparr>change = Fin 10, percentage = Fin 10\<rparr>
   \<and> getPriceChange exampleBuiltins
      [JObj [(''date'', JStr ''d1''), (''price'', JNum (Fin 83))],
       JObj [(''date'', JStr ''d2''), (''price'', JNum (decimal 9130 2))]]
     = Inr \<lparr>change = decimal 8299999999999997 15,
            percentage = decimal 9999999999999996 15\<rparr>
   \<and> getPriceChange exampleBuiltins
      [JObj [(''date'', JStr ''d1''), (''price'', JNum NZero)],
       JObj [(''date'', JStr ''d2''), (''price'', JNum (Fin 83))]]
     = Inr \<lparr>change = Fin 83, percentage = NInf\<rparr>
   \<and> getPriceChange exampleBuiltins [JObj [(''date'', JStr ''d1''), (''price'', JNum (Fin 100))]]
     = Inr \<lparr>change = Fin 0, percentage = Fin 0\<rparr>"
  using getPriceChange_delta [of
      "[JObj [(''date'', JStr ''d1''), (''price'', JNum (Fin 100))],
        JObj [(''date'', JStr ''d2''), (''price'', JNum (Fin 110))]]"
      exampleBuiltins "Fin 110" "Fin 100"]
    getPriceChange_delta [of
      "[JObj [(''date'', JStr ''d1''), (''price'', JNum (Fin 83))],
        JObj [(''date'', JStr ''d2''), (''price'', JNum (decimal 9130 2))]]"
      exampleBuiltins "decimal 9130 2" "Fin 83"]
    getPriceChange_delta [of
      "[JObj [(''date'', JStr ''d1''), (''price'', JNum NZero)],
        JObj [(''date'', JStr ''d2''), (''price'', JNum (Fin 83))]]"
      exampleBuiltins "Fin 83" NZero]
    getPriceChange_delta [of
      "[JObj [(''date'', JStr ''d1''), (''price'', JNum (Fin 100))]]"
      exampleBuiltins "Fin 0" "Fin 0"]
  by (simp add: sub_110 pct_110 sub_91_3 pct_91_3 sub_neg_zero pct_neg_zero)

section \<open>C7: a failed fetch resets the view\<close>

text \<open>
  C7, as amended. When one of the three requests of a selection rejects, or its body
  is not JSON, the view is reset: historical series and merged series empty, metrics
  \<^verbatim>\<open>null\<close>, loading off. The status of a response plays no part: a response with a
  non-OK status and a JSON body is handled like any other payload.
\<close>

theorem handleStockSelect_rejected:
  assumes sym: "bindE (Get company ''symbol'') (ToString B) = Inr symbol"
    and rej: "fetchJson stock = Inl e \<or> fetchJson predict = Inl e \<or> fetchJson metric = Inl e"
  shows "stockData (handleStockSelect B company stock predict metric s) = []
     \<and> mergedData (handleStockSelect B company stock predict metric s) = []
     \<and> metrics (handleStockSelect B company stock predict metric s) = JNull
     \<and> loading (handleStockSelect B company stock predict metric s) = False"
proof -
  from rej have "\<exists>e. promiseAll (fetchJson stock) (fetchJson predict) (fetchJson metric) = Inl e"
    by (cases "fetchJson stock"; cases "fetchJson predict"; cases "fetchJson metric")
      (auto simp: promiseAll_def)
  with sym show ?thesis
    by (auto simp: handleStockSelect_def onRejected_def Let_def)
qed

theorem handleStockSelect_rejected_witness:
  "stockData (handleStockSelect exampleBuiltins (JObj [(''symbol'', JStr ''AAPL'')])
      (Resolved (Response True (Some (JArr [JObj [(''date'', JStr ''d1''), (''price'', JNum (Fin 100))]]))))
      (Resolved (Response True (Some (JArr []))))
      (Resolved (Response False None))
      emptyView) = []
   \<and> metrics (handleStockSelect exampleBuiltins (JObj [(''symbol'', JStr ''AAPL'')])
      (Resolved (Response True (Some (JArr [JObj [(''date'', JStr ''d1''), (''price'', JNum (Fin 100))]]))))
      Rejected
      (Resolved (Response True (Some JNull)))
      emptyView) = JNull"
  using handleStockSelect_rejected [of "JObj [(''symbol'', JStr ''AAPL'')]" exampleBuiltins "''AAPL''"
      "Resolved (Response True (Some (JArr [JObj [(''date'', JStr ''d1''), (''price'', JNum (Fin 100))]])))"
      SyntaxError "Resolved (Response True (Some (JArr [])))" "Resolved (Response False None)"
      emptyView]
    handleStockSelect_rejected [of "JObj [(''symbol'', JStr ''AAPL'')]" exampleBuiltins "''AAPL''"
      "Resolved (Response True (Some (JArr [JObj [(''date'', JStr ''d1''), (''price'', JNum (Fin 100))]])))"
      TypeError Rejected "Resolved (Response True (Some JNull))"
      emptyView]
  by simp

text \<open>
  The claim C7 as stated, a reset also for a non-OK status, is false: with a metrics
  response of non-OK status whose body is \<^verbatim>\<open>{error: "x"}\<close>, the historical series of
  the same selection stays in the view.
\<close>

theorem handleStockSelect_status_counterexample:
  "stockData (handleStockSelect exampleBuiltins (JObj [(''symbol'', JStr ''AAPL'')])
      (Resolved (Response True (Some (JArr [JObj [(''date'', JStr ''d1''), (''price'', JNum (Fin 100))]]))))
      (Resolved (Response True (Some (JArr []))))
      (Resolved (Response False (Some (JObj [(''error'', JStr ''x'')]))))
      emptyView)
   = [JObj [(''date'', JStr ''d1''), (''price'', JNum (Fin 8300))]]"
  by (simp add: handleStockSelect_def emptyView_def promiseAll_def onFulfilled_def
      onRejected_def convertedHistorical_def merged_def callMap_def orElse_def
      convertPoint_def historicalProjection_def transformMetrics_def
      convertToInr_def coalesce_def zero_def USD_TO_INR_def conv_evals)

section \<open>C8: the absorbing-empty law\<close>

text \<open>
  C8. With no historical points the merged series is the projection of the forecast
  list alone, with no forecast points it is the projection of the historical list
  alone, and with neither it is the empty series; an empty input adds no error of its
  own.
\<close>

theorem merged_absorbing_empty:
  "merged B [] (JArr fs) = mapE (forecastProjection B) fs
   \<and> merged B hs (JArr []) = mapE historicalProjection hs
   \<and> merged B [] (JArr []) = Inr []"
proof -
  have 1: "merged B [] (JArr fs) = mapE (forecastProjection B) fs"
    by (cases "mapE (forecastProjection B) fs") (simp_all add: merged_def callMap_def orElse_def)
  have 2: "merged B hs (JArr []) = mapE historicalProjection hs"
    by (cases "mapE historicalProjection hs") (simp_all add: merged_def callMap_def orElse_def)
  have 3: "merged B [] (JArr []) = Inr []"
    by (simp add: merged_def callMap_def orElse_def)
  from 1 2 3 show ?thesis by blast
qed

theorem merged_absorbing_empty_witness:
  "merged exampleBuiltins [] (JArr [JObj [(''ds'', JStr ''d3''), (''yhat'', JNum (Fin 2))]])
     = Inr [JObj [(''date'', JStr ''d3''), (''prediction'', JNum (Fin 166))]]
   \<and> merged exampleBuiltins [JObj [(''date'', JStr ''d1''), (''price'', JNum (Fin 8300))]] (JArr [])
     = Inr [JObj [(''date'', JStr ''d1''), (''price'', JNum (Fin 8300))]]"
  using merged_absorbing_empty [of exampleBuiltins
      "[JObj [(''ds'', JStr ''d3''), (''yhat'', JNum (Fin 2))]]"
      "[JObj [(''date'', JStr ''d1''), (''price'', JNum (Fin 8300))]]"]
  by (simp add: forecastProjection_def historicalProjection_def convertToInr_def
      coalesce_def zero_def USD_TO_INR_def conv_evals)

section \<open>C9: one value field per merged point\<close>

text \<open>
  C9. In the merged series built from the converted historical list, every point is an
  object; the points from the historical list (the first ones) have a \<^verbatim>\<open>price\<close> that
  is a number and no \<^verbatim>\<open>prediction\<close>, and the points from the forecast list have a
  \<^verbatim>\<open>prediction\<close> that is a number and no \<^verbatim>\<open>price\<close>. No point has both.
\<close>

theorem merged_one_value_field:
  assumes conv: "convertedHistorical B h = Inr conv"
    and ms: "merged B conv p = Inr ms"
    and i: "i < length ms"
  shows "\<exists>kvs x. ms ! i = JObj kvs \<and>
     (if i < length conv
      then map_of kvs ''price'' = Some (JNum x) \<and> map_of kvs ''prediction'' = None
      else map_of kvs ''prediction'' = Some (JNum x) \<and> map_of kvs ''price'' = None)"
proof -
  from conv obtain xs where xs: "list_all2 (\<lambda>d m. convertPoint B d = Inr m) xs conv"
    by (auto simp: convertedHistorical_eq_Inr)
  from ms obtain a b fs where ab: "ms = a @ b"
    and a: "list_all2 (\<lambda>d m. historicalProjection d = Inr m) conv a"
    and b: "list_all2 (\<lambda>d m. forecastProjection B d = Inr m) fs b"
    by (auto simp: merged_eq_Inr callMap_eq_Inr)
  have la: "length a = length conv"
    using a by (simp add: list_all2_lengthD)
  show ?thesis
  proof (cases "i < length conv")
    case True
    with xs have "convertPoint B (xs ! i) = Inr (conv ! i)"
      by (simp add: list_all2_conv_all_nth)
    then obtain x where "field (conv ! i) ''price'' = JNum x"
      by (auto simp: convertPoint_eq_Inr field_def map_of_update)
    moreover from a True have "historicalProjection (conv ! i) = Inr (a ! i)"
      by (simp add: list_all2_conv_all_nth)
    ultimately show ?thesis
      using True la ab by (auto simp: historicalProjection_eq_Inr nth_append)
  next
    case False
    with i ab la have j: "i - length conv < length b" and e: "ms ! i = b ! (i - length conv)"
      by (auto simp: nth_append)
    from b j have "forecastProjection B (fs ! (i - length conv)) = Inr (b ! (i - length conv))"
      by (simp add: list_all2_conv_all_nth)
    then show ?thesis
      using False e by (auto simp: forecastProjection_eq_Inr)
  qed
qed

theorem merged_one_value_field_witness:
  "convertedHistorical exampleBuiltins
      (JArr [JObj [(''date'', JStr ''d1''), (''price'', JNum (Fin 100))]])
     = Inr [JObj [(''date'', JStr ''d1''), (''price'', JNum (Fin 8300))]]
   \<and> merged exampleBuiltins [JObj [(''date'', JStr ''d1''), (''price'', JNum (Fin 8300))]]
      (JArr [JObj [(''ds'', JStr ''d2''), (''yhat'', JNum (Fin 2))]])
     = Inr [JObj [(''date'', JStr ''d1''), (''price'', JNum (Fin 8300))],
            JObj [(''date'', JStr ''d2''), (''prediction'', JNum (Fin 166))]]
   \<and> (\<exists>kvs x.
        [JObj [(''date'', JStr ''d1''), (''price'', JNum (Fin 8300))],
         JObj [(''date'', JStr ''d2''), (''prediction'', JNum (Fin 166))]] ! 1 = JObj kvs
        \<and> map_of kvs ''prediction'' = Some (JNum x) \<and> map_of kvs ''price'' = None)
   \<and> (\<exists>kvs x.
        [JObj [(''date'', JStr ''d1''), (''price'', JNum (Fin 8300))],
         JObj [(''date'', JStr ''d2''), (''prediction'', JNum (Fin 166))]] ! 0 = JObj kvs
        \<and> map_of kvs ''price'' = Some (JNum x) \<and> map_of kvs ''prediction'' = None)"
  using merged_one_value_field [of exampleBuiltins
      "JArr [JObj [(''date'', JStr ''d1''), (''price'', JNum (Fin 100))]]"
      "[JObj [(''date'', JStr ''d1''), (''price'', JNum (Fin 8300))]]"
      "JArr [JObj [(''ds'', JStr ''d2''), (''yhat'', JNum (Fin 2))]]"
      "[JObj [(''date'', JStr ''d1''), (''price'', JNum (Fin 8300))],
        JObj [(''date'', JStr ''d2''), (''prediction'', JNum (Fin 166))]]" 1]
    merged_one_value_field [of exampleBuiltins
      "JArr [JObj [(''date'', JStr ''d1''), (''price'', JNum (Fin 100))]]"
      "[JObj [(''date'', JStr ''d1''), (''price'', JNum (Fin 8300))]]"
      "JArr [JObj [(''ds'', JStr ''d2''), (''yhat'', JNum (Fin 2))]]"
      "[JObj [(''date'', JStr ''d1''), (''price'', JNum (Fin 8300))],
        JObj [(''date'', JStr ''d2''), (''prediction'', JNum (Fin 166))]]" 0]
  by (simp add: convertedHistorical_def merged_def callMap_def orElse_def convertPoint_def
      historicalProjection_def forecastProjection_def
      convertToInr_def coalesce_def zero_def USD_TO_INR_def conv_evals)

section \<open>C10: only a truthy error marker gives null\<close>

text \<open>
  C10. \<^verbatim>\<open>transformMetrics\<close> returns \<^verbatim>\<open>null\<close> exactly when its input is falsy or the
  \<^verbatim>\<open>error\<close> field of the input is truthy. For a truthy input \<open>m\<close> whose \<^verbatim>\<open>error\<close> is
  falsy, present (the empty string, say) or not, the result is the normalised metrics
  object: with \<open>R\<close> the \<^verbatim>\<open>regression\<close> and \<open>C\<close> the \<^verbatim>\<open>classification\<close> of \<open>m\<close> (the
  empty object when falsy), \<^verbatim>\<open>mae\<close> and \<^verbatim>\<open>rmse\<close> are the converted numbers of the
  input fields, the six other leaves are the numbers of the input fields (0 when
  missing), the confusion matrix is the input's or all zeros, and every other property
  of \<open>m\<close> (the falsy \<^verbatim>\<open>error\<close> among them), of \<open>R\<close> and of \<open>C\<close> is passed through.
\<close>

theorem transformMetrics_truthy_marker:
  "(transformMetrics B m = Inr JNull) = (\<not> truthy m \<or> truthy (field m ''error''))
   \<and> (truthy m \<and> \<not> truthy (field m ''error'') \<and> leavesConvert m
        \<and> R = orElse (field m ''regression'') (JObj [])
        \<and> C = orElse (field m ''classification'') (JObj [])
      \<longrightarrow> (\<exists>top reg cls mae rmse mape r2 accuracy precision recall f1.
             transformMetrics B m = Inr (JObj top)
           \<and> map_of top ''regression'' = Some (JObj reg)
           \<and> map_of top ''classification'' = Some (JObj cls)
           \<and> (\<forall>k. k \<noteq> ''regression'' \<and> k \<noteq> ''classification''
                 \<longrightarrow> map_of top k = map_of (spread m) k)
           \<and> ToNumber B (coalesce (field R ''mae'') zero) = Inr mae
           \<and> map_of reg ''mae'' = Some (JNum (parseFloat_toFixed2 (num_mul mae (Fin 83))))
           \<and> ToNumber B (coalesce (field R ''rmse'') zero) = Inr rmse
           \<and> map_of reg ''rmse'' = Some (JNum (parseFloat_toFixed2 (num_mul rmse (Fin 83))))
           \<and> ToNumber B (coalesce (field R ''mape'') zero) = Inr mape
           \<and> map_of reg ''mape'' = Some (JNum mape)
           \<and> ToNumber B (coalesce (field R ''r2'') zero) = Inr r2
           \<and> map_of reg ''r2'' = Some (JNum r2)
           \<and> (\<forall>k. k \<notin> {''mae'', ''rmse'', ''mape'', ''r2''}
                 \<longrightarrow> map_of reg k = map_of (spread R) k)
           \<and> ToNumber B (coalesce (field C ''accuracy'') zero) = Inr accuracy
           \<and> map_of cls ''accuracy'' = Some (JNum accuracy)
           \<and> ToNumber B (coalesce (field C ''precision'') zero) = Inr precision
           \<and> map_of cls ''precision'' = Some (JNum precision)
           \<and> ToNumber B (coalesce (field C ''recall'') zero) = Inr recall
           \<and> map_of cls ''recall'' = Some (JNum recall)
           \<and> ToNumber B (coalesce (field C ''f1'') zero) = Inr f1
           \<and> map_of cls ''f1'' = Some (JNum f1)
           \<and> map_of cls ''confusion_matrix''
                = Some (if truthy (field C ''confusion_matrix'')
                        then field C ''confusion_matrix'' else emptyMatrix)
           \<and> (\<forall>k. k \<notin> {''accuracy'', ''precision'', ''recall'', ''f1'', ''confusion_matrix''}
                 \<longrightarrow> map_of cls k = map_of (spread C) k)))"
  using transformMetrics_null [of B m] transformMetrics_normalized [of m R C B]
  by blast

text \<open>
  The witness: \<^verbatim>\<open>{error: "", regression: {mae: 1}}\<close> is not mapped to \<^verbatim>\<open>null\<close> but to
  the normalised object, which keeps the empty \<^verbatim>\<open>error\<close>.
\<close>

theorem transformMetrics_truthy_marker_witness:
  "transformMetrics exampleBuiltins
     (JObj [(''error'', JStr []), (''regression'', JObj [(''mae'', JNum (Fin 1))])])
     \<noteq> Inr JNull
   \<and> transformMetrics exampleBuiltins
     (JObj [(''error'', JStr []), (''regression'', JObj [(''mae'', JNum (Fin 1))])])
     = Inr (JObj [(''error'', JStr []),
                  (''regression'', JObj [(''mae'', JNum (Fin 83)), (''rmse'', JNum (Fin 0)),
                                         (''mape'', JNum (Fin 0)), (''r2'', JNum (Fin 0))]),
                  (''classification'', JObj [(''accuracy'', JNum (Fin 0)),
                                             (''precision'', JNum (Fin 0)),
                                             (''recall'', JNum (Fin 0)), (''f1'', JNum (Fin 0)),
                                             (''confusion_matrix'',
                                                JObj [(''tn'', JNum (Fin 0)), (''fp'', JNum (Fin 0)),
                                                      (''fn'', JNum (Fin 0)), (''tp'', JNum (Fin 0))])])])"
  using transformMetrics_truthy_marker [of exampleBuiltins
      "JObj [(''error'', JStr []), (''regression'', JObj [(''mae'', JNum (Fin 1))])]"
      "JObj [(''mae'', JNum (Fin 1))]" "JObj []"]
  by (simp add: transformMetrics_def regressionPart_def classificationPart_def
      convertedField_def numberField_def orElse_def emptyMatrix_def
      convertToInr_def coalesce_def zero_def USD_TO_INR_def conv_evals)

end
